theory Spec2Isabelle
  imports Complex_Main "HOL-Library.Log_Nat"
begin

section \<open>The socket worker of the peer-to-peer gatekeeper\<close>

text \<open>
  A shallow embedding of the class \<open>Worker\<close> (the socket worker placed in front of the
  node's handlers): the raw frame listener \<open>handlePayload\<close>, the envelope check
  \<open>hasAdditionalProperties\<close>, the penalty table \<open>ipLastError\<close>, and the two
  middlewares \<open>handleHandshake\<close> and \<open>handleEmit\<close>.

  What the worker does not own is a parameter of the model:
  \<^item> \<open>JSON.parse\<close> is a function \<open>parse\<close> from the raw frame to the parsed value,
    \<open>None\<close> when it throws;
  \<^item> the master process behind \<open>sendToMaster\<close> is a function \<open>master\<close> from the
    message sent to the answer, a rejection or a resolved value;
  \<^item> \<open>cidr\<close> of the package \<open>ip\<close> is a function on strings;
  \<^item> the table \<open>requestSchemas\<close> and \<open>ajv.validate\<close> are a lookup function and a
    validator that may throw;
  \<^item> the clock (\<open>Date.now()\<close>, milliseconds) is an integer \<open>now\<close>.
\<close>

subsection \<open>JavaScript values\<close>

text \<open>
  The values that \<open>JSON.parse\<close> and the master's answers can be, with \<open>undefined\<close> for
  a missing property. A number carries the value of the double.
\<close>

datatype jsval =
    JUndefined
  | JNull
  | JBool bool
  | JNum rat
  | JStr string
  | JArr "jsval list"
  | JObj "(string \<times> jsval) list"

text \<open>
  Arithmetic on numbers is arithmetic on doubles: the exact result rounded to the nearest
  number with a significand of 53 bits, a tie going to the even significand.
  \<open>binade x\<close> is the exponent \<open>e\<close> with \<open>2^e \<le> |x| < 2^(e+1)\<close>. Overflow and
  subnormal numbers are left out: the worker computes with clock readings only.
\<close>

definition binade :: "rat \<Rightarrow> int" where
  "binade x =
     (case quotient_of \<bar>x\<bar> of (p, q) \<Rightarrow>
        let e = bitlen p - bitlen q
        in if \<bar>x\<bar> < power_int 2 e then e - 1 else e)"

definition toDouble :: "rat \<Rightarrow> rat" where
  "toDouble x =
     (if x = 0 then 0
      else
        let ulp = power_int 2 (binade x - 52);
            m = x / ulp;
            f = \<lfloor>m\<rfloor>;
            r = m - of_int f;
            n = (if r < 1 / 2 then f
                 else if 1 / 2 < r then f + 1
                 else if even f then f else f + 1)
        in of_int n * ulp)"

text \<open>What escapes as an exception: a \<open>TypeError\<close> of the engine, the rejection of a
  call to the master (with its message), and a throw of the schema validator.\<close>

datatype exn = TypeError | RpcError string | ValidatorError

text \<open>\<open>typeof v\<close>: \<open>null\<close> and arrays are \<open>"object"\<close>.\<close>

fun typeof :: "jsval \<Rightarrow> string" where
  "typeof JUndefined = ''undefined''"
| "typeof JNull = ''object''"
| "typeof (JBool b) = ''boolean''"
| "typeof (JNum n) = ''number''"
| "typeof (JStr s) = ''string''"
| "typeof (JArr vs) = ''object''"
| "typeof (JObj kvs) = ''object''"

text \<open>The conversion to a boolean of \<open>if (v)\<close>, \<open>v && w\<close> and \<open>!v\<close>.\<close>

fun truthy :: "jsval \<Rightarrow> bool" where
  "truthy JUndefined = False"
| "truthy JNull = False"
| "truthy (JBool b) = b"
| "truthy (JNum n) = (n \<noteq> 0)"
| "truthy (JStr s) = (s \<noteq> [])"
| "truthy (JArr vs) = True"
| "truthy (JObj kvs) = True"

text \<open>
  \<open>v.k\<close> for the property names the worker reads (\<open>event\<close>, \<open>data\<close>, \<open>cid\<close>,
  \<open>headers\<close>, \<open>version\<close>, \<open>port\<close>, \<open>height\<close>, \<open>Content-Type\<close> and the fields of the
  master's answers): reading a property of \<open>undefined\<close> or \<open>null\<close> throws a
  \<open>TypeError\<close>; an object yields the value stored under the key or \<open>undefined\<close>; a
  string, number, boolean or array has none of these names.
\<close>

fun getProp :: "jsval \<Rightarrow> string \<Rightarrow> exn + jsval" where
  "getProp JUndefined k = Inl TypeError"
| "getProp JNull k = Inl TypeError"
| "getProp (JObj kvs) k = Inr (case map_of kvs k of None \<Rightarrow> JUndefined | Some v \<Rightarrow> v)"
| "getProp v k = Inr JUndefined"

text \<open>The decimal numeral of an index, for the keys of arrays and strings.\<close>

fun showNat :: "nat \<Rightarrow> string" where
  "showNat n =
     (if n < 10 then [''0123456789'' ! n]
      else showNat (n div 10) @ [''0123456789'' ! (n mod 10)])"

declare showNat.simps [simp del]

text \<open>\<open>Object.keys(v)\<close>: throws on \<open>undefined\<close> and \<open>null\<close>; the indices of an array
  or a string; nothing for a number or a boolean.\<close>

fun objectKeys :: "jsval \<Rightarrow> exn + string list" where
  "objectKeys JUndefined = Inl TypeError"
| "objectKeys JNull = Inl TypeError"
| "objectKeys (JObj kvs) = Inr (map fst kvs)"
| "objectKeys (JArr vs) = Inr (map showNat [0..<length vs])"
| "objectKeys (JStr s) = Inr (map showNat [0..<length s])"
| "objectKeys v = Inr []"

text \<open>\<open>s.split(".")\<close>.\<close>

fun split_dot :: "string \<Rightarrow> string list" where
  "split_dot [] = [[]]"
| "split_dot (c # cs) =
     (if c = CHR ''.'' then [] # split_dot cs
      else (case split_dot cs of [] \<Rightarrow> [[c]] | w # ws \<Rightarrow> (c # w) # ws))"

text \<open>An element of an array used as a property key or compared with a string: a
  missing element is \<open>undefined\<close>, which is the key \<open>"undefined"\<close> and equals no
  string of the worker.\<close>

definition element :: "string list \<Rightarrow> nat \<Rightarrow> string option" where
  "element xs i = (if i < length xs then Some (xs ! i) else None)"

definition propertyKey :: "string option \<Rightarrow> string" where
  "propertyKey k = (case k of None \<Rightarrow> ''undefined'' | Some s \<Rightarrow> s)"

subsection \<open>The master process\<close>

text \<open>\<open>sendToMasterAsync(endpoint, data)\<close> sends \<open>{endpoint, ...data}\<close> and settles
  with the master's answer: rejected with an error or resolved with a result.\<close>

datatype rpc = Rejected string | Resolved jsval

type_synonym master = "jsval \<Rightarrow> rpc"

definition request :: "string \<Rightarrow> (string \<times> jsval) list \<Rightarrow> jsval" where
  "request endpoint data = JObj ((''endpoint'', JStr endpoint) # data)"

text \<open>The messages of the two middlewares, by endpoint.\<close>

abbreviation isBlockedByRateLimit_msg :: "string \<Rightarrow> jsval" where
  "isBlockedByRateLimit_msg ip \<equiv>
     request ''p2p.internal.isBlockedByRateLimit'' [(''data'', JObj [(''ip'', JStr ip)])]"

abbreviation getRateLimitStatus_msg :: "string \<Rightarrow> string \<Rightarrow> jsval" where
  "getRateLimitStatus_msg ip endpoint \<equiv>
     request ''p2p.internal.getRateLimitStatus''
       [(''data'', JObj [(''ip'', JStr ip), (''endpoint'', JStr endpoint)])]"

abbreviation isAppReady_msg :: jsval where
  "isAppReady_msg \<equiv> request ''p2p.utils.isAppReady'' []"

abbreviation isForgerAuthorized_msg :: "string \<Rightarrow> jsval" where
  "isForgerAuthorized_msg ip \<equiv>
     request ''p2p.utils.isForgerAuthorized'' [(''data'', JObj [(''ip'', JStr ip)])]"

abbreviation isPeerOrForger_msg :: "string \<Rightarrow> jsval" where
  "isPeerOrForger_msg ip \<equiv>
     request ''p2p.internal.isPeerOrForger'' [(''data'', JObj [(''ip'', JStr ip)])]"

abbreviation acceptNewPeer_msg :: "string \<Rightarrow> jsval \<Rightarrow> jsval" where
  "acceptNewPeer_msg ip headers \<equiv>
     request ''p2p.internal.acceptNewPeer''
       [(''data'', JObj [(''ip'', JStr ip)]), (''headers'', headers)]"

text \<open>\<open>this.log(message, level)\<close> sends \<open>p2p.utils.log\<close> and swallows its failure.\<close>

definition logRequest :: "string \<Rightarrow> string \<Rightarrow> jsval" where
  "logRequest message level =
     request ''p2p.utils.log''
       [(''data'', JObj [(''level'', JStr level), (''message'', JStr message)])]"

text \<open>\<open>e.message\<close> of a caught exception; the engine's own text of a \<open>TypeError\<close>
  and of a validator's throw is not modelled.\<close>

fun message_of :: "exn \<Rightarrow> string" where
  "message_of (RpcError m) = m"
| "message_of TypeError = ''TypeError''"
| "message_of ValidatorError = ''ValidatorError''"

subsection \<open>The worker's state\<close>

record config =
  blacklist :: "string list option"
  maxSameSubnetPeers :: int

record worker =
  config :: config
  handlers :: "string list"
  ipLastError :: "string \<rightharpoonup> int"

text \<open>A raw socket \<open>ws\<close>: the three marks the frame listener keeps on it, and whether
  \<open>ws.terminate()\<close> was called.\<close>

record ws =
  ws_disconnected :: bool
  ws_handshake :: bool
  ws_lastPingTime :: "rat option"
  ws_terminated :: bool

text \<open>\<open>scServer.clients\<close> and \<open>scServer.pendingClients\<close>: objects from socket id to
  client, a client being its \<open>remoteAddress\<close> here.\<close>

record scServer =
  clients :: "(string \<times> string) list"
  pendingClients :: "(string \<times> string) list"

text \<open>\<open>{ ...a, ...b }\<close>: the keys of \<open>a\<close> in order, a key of \<open>b\<close> replacing in place
  or appended.\<close>

fun assign :: "(string \<times> 'v) list \<Rightarrow> string \<Rightarrow> 'v \<Rightarrow> (string \<times> 'v) list" where
  "assign [] k v = [(k, v)]"
| "assign ((k', v') # kvs) k v = (if k' = k then (k, v) # kvs else (k', v') # assign kvs k v)"

fun spread :: "(string \<times> 'v) list \<Rightarrow> (string \<times> 'v) list \<Rightarrow> (string \<times> 'v) list" where
  "spread a [] = a"
| "spread a ((k, v) # b) = spread (assign a k v) b"

definition MINUTE_IN_MILLISECONDS :: int where
  "MINUTE_IN_MILLISECONDS = 1000 * 60"

definition HOUR_IN_MILLISECONDS :: int where
  "HOUR_IN_MILLISECONDS = MINUTE_IN_MILLISECONDS * 60"

text \<open>\<open>setErrorForIpAndTerminate(ws, req)\<close>, with \<open>ip\<close> for
  \<open>req.socket.remoteAddress\<close>.\<close>

definition setErrorForIpAndTerminate :: "int \<Rightarrow> string \<Rightarrow> worker \<times> ws \<Rightarrow> worker \<times> ws" where
  "setErrorForIpAndTerminate now ip s =
     (case s of (w, sock) \<Rightarrow>
        (w\<lparr>ipLastError := (ipLastError w)(ip \<mapsto> now)\<rparr>, sock\<lparr>ws_terminated := True\<rparr>))"

text \<open>The callback of \<open>setInterval\<close> in \<open>run\<close>, fired every
  \<open>HOUR_IN_MILLISECONDS\<close>: \<open>this.ipLastError = {}\<close>.\<close>

definition purge :: "worker \<Rightarrow> worker" where
  "purge w = w\<lparr>ipLastError := Map.empty\<rparr>"

subsection \<open>Admission: \<open>handleHandshake\<close>\<close>

text \<open>How a middleware ends: \<open>req.socket.destroy()\<close>, \<open>req.socket.terminate()\<close>,
  \<open>next()\<close>, \<open>next(new Error(m))\<close>, or an exception that leaves the \<open>async\<close>
  function (its promise rejects; the socket is neither closed nor passed on).\<close>

datatype outcome = Destroy | Terminate | Next | NextError string | Throw exn

text \<open>The first test of \<open>handleHandshake\<close>:
  \<open>this.ipLastError[ip] && this.ipLastError[ip] > Date.now() - MINUTE_IN_MILLISECONDS\<close>.
  A stored \<open>0\<close> is falsy.\<close>

definition isPenalized :: "worker \<Rightarrow> int \<Rightarrow> string \<Rightarrow> bool" where
  "isPenalized w now ip =
     (case ipLastError w ip of
        None \<Rightarrow> False
      | Some t \<Rightarrow> t \<noteq> 0 \<and> t > now - MINUTE_IN_MILLISECONDS)"

text \<open>\<open>(this.config.blacklist || []).includes(ip)\<close>.\<close>

definition isBlacklisted :: "worker \<Rightarrow> string \<Rightarrow> bool" where
  "isBlacklisted w ip = (ip \<in> set (case blacklist (config w) of None \<Rightarrow> [] | Some b \<Rightarrow> b))"

text \<open>The sockets counted by the subnet test: the values of
  \<open>{ ...clients, ...pendingClients }\<close> whose \<open>cidr\<close> of \<open>remoteAddress/24\<close> is that
  of the incoming address.\<close>

definition sameSubnetSockets :: "(string \<Rightarrow> string) \<Rightarrow> scServer \<Rightarrow> string \<Rightarrow> string list" where
  "sameSubnetSockets cidr sc ip =
     filter (\<lambda>client. cidr (client @ ''/24'') = cidr (ip @ ''/24''))
       (map snd (spread (clients sc) (pendingClients sc)))"

text \<open>\<open>handleHandshake(req, next)\<close>: the outcome and the messages sent to the master,
  in order. The penalty table is read before the call to the master, the configuration
  and the sockets after it; the model takes one state for both, a run in which no other
  callback changes them while the call is awaited.\<close>

definition handleHandshake ::
  "(string \<Rightarrow> string) \<Rightarrow> master \<Rightarrow> worker \<Rightarrow> scServer \<Rightarrow> int \<Rightarrow> string \<Rightarrow> outcome \<times> jsval list" where
  "handleHandshake cidr master w sc now ip =
     (if isPenalized w now ip then (Destroy, [])
      else
        let msg = isBlockedByRateLimit_msg ip in
        (case master msg of
           Rejected e \<Rightarrow> (Throw (RpcError e), [msg])
         | Resolved res \<Rightarrow>
             (case getProp res ''data'' of
                Inl x \<Rightarrow> (Throw x, [msg])
              | Inr d \<Rightarrow>
                  (case getProp d ''blocked'' of
                     Inl x \<Rightarrow> (Throw x, [msg])
                   | Inr blocked \<Rightarrow>
                       if truthy blocked \<or> isBlacklisted w ip then (Destroy, [msg])
                       else if int (length (sameSubnetSockets cidr sc ip)) > maxSameSubnetPeers (config w)
                         then (Destroy, [msg])
                         else (Next, [msg])))))"

subsection \<open>The envelope check: \<open>hasAdditionalProperties\<close>\<close>

text \<open>Sequencing of steps that may throw: the first exception ends the computation.\<close>

definition andThen :: "exn + 'a \<Rightarrow> ('a \<Rightarrow> exn + 'b) \<Rightarrow> exn + 'b" where
  "andThen m f = (case m of Inl e \<Rightarrow> Inl e | Inr x \<Rightarrow> f x)"

text \<open>
  The table \<open>requestSchemas\<close> is a function: \<open>requestSchemas version\<close> is \<open>None\<close>
  when \<open>requestSchemas[version]\<close> is \<open>undefined\<close> (indexing it throws), else the
  table of the version, which gives \<open>None\<close> where no schema is registered.
  \<open>validate schema v\<close> is \<open>ajv.validate(schema, v)\<close>, \<open>None\<close> when it throws.
\<close>

type_synonym 's schemas = "string \<Rightarrow> (string \<Rightarrow> 's option) option"

type_synonym 's validator = "'s \<Rightarrow> jsval \<Rightarrow> bool option"

text \<open>The block \<open>if (object.data.data) { ... }\<close>, entered with a truthy payload
  \<open>dd\<close>: the schema of \<open>[_, version, handler] = event\<close>, and the validation inside
  \<open>try { } catch { }\<close>.\<close>

definition invalidPayload :: "'s schemas \<Rightarrow> 's validator \<Rightarrow> string list \<Rightarrow> jsval \<Rightarrow> exn + bool" where
  "invalidPayload requestSchemas validate event dd =
     (case requestSchemas (propertyKey (element event 1)) of
        None \<Rightarrow> Inl TypeError
      | Some table \<Rightarrow>
          (case table (propertyKey (element event 2)) of
             None \<Rightarrow> Inr False
           | Some schema \<Rightarrow>
               (case validate schema dd of
                  Some False \<Rightarrow> Inr True
                | _ \<Rightarrow> Inr False)))"

text \<open>The block \<open>if (object.data.headers) { ... }\<close>, entered with truthy headers
  \<open>h\<close>.\<close>

definition invalidHeaders :: "jsval \<Rightarrow> exn + bool" where
  "invalidHeaders h =
     andThen (objectKeys h) (\<lambda>keys.
       if filter (\<lambda>key. key \<noteq> ''version'' \<and> key \<noteq> ''port'' \<and> key \<noteq> ''height''
                          \<and> key \<noteq> ''Content-Type'') keys \<noteq> []
       then Inr True
       else
         andThen (getProp h ''version'') (\<lambda>version.
         andThen (getProp h ''port'') (\<lambda>port.
         andThen (getProp h ''Content-Type'') (\<lambda>contentType.
         andThen (getProp h ''height'') (\<lambda>height.
           Inr ((truthy version \<and> typeof version \<noteq> ''string'')
              \<or> (truthy port \<and> typeof port \<noteq> ''number'')
              \<or> (truthy contentType \<and> typeof contentType \<noteq> ''string'')
              \<or> (truthy height \<and> typeof height \<noteq> ''number'')))))))"

definition hasAdditionalProperties :: "'s schemas \<Rightarrow> 's validator \<Rightarrow> jsval \<Rightarrow> exn + bool" where
  "hasAdditionalProperties requestSchemas validate object =
     andThen (objectKeys object) (\<lambda>keys.
       if filter (\<lambda>key. key \<noteq> ''event'' \<and> key \<noteq> ''data'' \<and> key \<noteq> ''cid'') keys \<noteq> []
       then Inr True
       else
         andThen (getProp object ''event'') (\<lambda>ev.
           case ev of
             JStr e \<Rightarrow>
               let event = split_dot e in
               andThen
                 (if e \<noteq> ''#handshake'' \<and> e \<noteq> ''#disconnect'' then
                    (if length event \<noteq> 3 then Inr True
                     else
                       andThen (getProp object ''data'') (\<lambda>d.
                       andThen (objectKeys d) (\<lambda>dkeys.
                         Inr (filter (\<lambda>key. key \<noteq> ''data'' \<and> key \<noteq> ''headers'') dkeys \<noteq> []))))
                  else Inr False)
                 (\<lambda>early.
                    if early then Inr True
                    else
                      andThen (getProp object ''data'') (\<lambda>d.
                      andThen (getProp d ''data'') (\<lambda>dd.
                      andThen (if truthy dd then invalidPayload requestSchemas validate event dd
                               else Inr False)
                        (\<lambda>bad.
                           if bad then Inr True
                           else
                             andThen (getProp d ''headers'') (\<lambda>h.
                               if truthy h then invalidHeaders h else Inr False)))))
           | _ \<Rightarrow> Inl TypeError))"

subsection \<open>The raw frame listeners: \<open>handlePayload\<close>\<close>

text \<open>The listeners for \<open>ping\<close> and \<open>pong\<close>.\<close>

definition handlePayload_ping :: "int \<Rightarrow> string \<Rightarrow> worker \<times> ws \<Rightarrow> worker \<times> ws" where
  "handlePayload_ping now ip s = setErrorForIpAndTerminate now ip s"

definition handlePayload_pong :: "int \<Rightarrow> string \<Rightarrow> worker \<times> ws \<Rightarrow> worker \<times> ws" where
  "handlePayload_pong now ip s = setErrorForIpAndTerminate now ip s"

text \<open>The condition of the last \<open>else if\<close> of the listener for \<open>message\<close>, evaluated
  left to right; \<open>event\<close> is \<open>parsed.event\<close>.\<close>

definition invalidCall ::
  "'s schemas \<Rightarrow> 's validator \<Rightarrow> worker \<Rightarrow> jsval \<Rightarrow> jsval \<Rightarrow> exn + bool" where
  "invalidCall requestSchemas validate w parsed event =
     (if typeof event \<noteq> ''string'' then Inr True
      else
        andThen (getProp parsed ''data'') (\<lambda>d.
          if typeof d \<noteq> ''object'' then Inr True
          else
            andThen (hasAdditionalProperties requestSchemas validate parsed) (\<lambda>extra.
              if extra then Inr True
              else
                andThen (getProp parsed ''cid'') (\<lambda>cid.
                  if typeof cid \<noteq> ''number''
                     \<and> (event = JStr ''#disconnect'' \<and> typeof cid \<noteq> ''undefined'')
                  then Inr True
                  else Inr (\<not> (case event of JStr e \<Rightarrow> e \<in> set (handlers w) | _ \<Rightarrow> False))))))"

text \<open>The body of \<open>try\<close> after \<open>JSON.parse\<close>.\<close>

definition handleParsed ::
  "'s schemas \<Rightarrow> 's validator \<Rightarrow> int \<Rightarrow> string \<Rightarrow> jsval \<Rightarrow> worker \<times> ws \<Rightarrow> exn + worker \<times> ws" where
  "handleParsed requestSchemas validate now ip parsed s =
     andThen (getProp parsed ''event'') (\<lambda>event.
       if event = JStr ''#disconnect'' then Inr (fst s, (snd s)\<lparr>ws_disconnected := True\<rparr>)
       else if event = JStr ''#handshake'' then
         (let s' = (if ws_handshake (snd s) then setErrorForIpAndTerminate now ip s else s)
          in Inr (fst s', (snd s')\<lparr>ws_handshake := True\<rparr>))
       else
         andThen (invalidCall requestSchemas validate (fst s) parsed event) (\<lambda>bad.
           Inr (if bad then setErrorForIpAndTerminate now ip s else s)))"

text \<open>The listener for \<open>message\<close>. \<open>timeNow\<close> is \<open>new Date().getTime() / 1000\<close>, a
  division of doubles, and \<open>timeNow - ws._lastPingTime\<close> a subtraction of doubles.\<close>

definition handlePayload_message ::
  "(string \<Rightarrow> jsval option) \<Rightarrow> 's schemas \<Rightarrow> 's validator \<Rightarrow> int \<Rightarrow> string \<Rightarrow> string
     \<Rightarrow> worker \<times> ws \<Rightarrow> worker \<times> ws" where
  "handlePayload_message parse requestSchemas validate now ip message s =
     (if ws_disconnected (snd s) then setErrorForIpAndTerminate now ip s
      else if message = ''#2'' then
        (let timeNow = toDouble (of_int now / 1000);
             s' = (if (case ws_lastPingTime (snd s) of
                         None \<Rightarrow> False
                       | Some t \<Rightarrow> t \<noteq> 0 \<and> toDouble (timeNow - t) < 1)
                   then setErrorForIpAndTerminate now ip s else s)
         in (fst s', (snd s')\<lparr>ws_lastPingTime := Some timeNow\<rparr>))
      else if length message < 10 then setErrorForIpAndTerminate now ip s
      else
        (case parse message of
           None \<Rightarrow> setErrorForIpAndTerminate now ip s
         | Some parsed \<Rightarrow>
             (case handleParsed requestSchemas validate now ip parsed s of
                Inl e \<Rightarrow> setErrorForIpAndTerminate now ip s
              | Inr s' \<Rightarrow> s')))"


subsection \<open>Authorization: \<open>handleEmit\<close>\<close>

text \<open>A request of the \<open>emit\<close> middleware: \<open>req.event\<close>, \<open>req.data\<close> and
  \<open>req.socket.remoteAddress\<close>.\<close>

record emit_req =
  req_event :: string
  req_data :: jsval
  req_remoteAddress :: string

text \<open>
  \<open>req.data.headers.remoteAddress = req.socket.remoteAddress\<close>, on \<open>req.data\<close> whose
  \<open>typeof\<close> is \<open>"object"\<close> and is not \<open>null\<close>: it throws when the headers are
  \<open>null\<close>. A property set on an array has no place in \<open>jsval\<close>; the array is kept
  as it is.
\<close>

definition setRemoteAddress :: "jsval \<Rightarrow> jsval \<Rightarrow> string \<Rightarrow> exn + jsval" where
  "setRemoteAddress data headers ip =
     (case headers of
        JObj hs \<Rightarrow>
          (case data of
             JObj ds \<Rightarrow>
               Inr (JObj (assign ds ''headers'' (JObj (assign hs ''remoteAddress'' (JStr ip)))))
           | _ \<Rightarrow> Inr data)
      | JNull \<Rightarrow> Inl TypeError
      | JUndefined \<Rightarrow> Inl TypeError
      | _ \<Rightarrow> Inr data)"

text \<open>The end of the \<open>try\<close> block: the remote address is written into the headers.
  The result is an exception or the outcome, with the messages sent and \<open>req.data\<close>
  afterwards.\<close>

definition attachRemoteAddress ::
  "emit_req \<Rightarrow> jsval \<Rightarrow> jsval list \<Rightarrow> (exn + outcome) \<times> jsval list \<times> jsval" where
  "attachRemoteAddress req headers sent =
     (case setRemoteAddress (req_data req) headers (req_remoteAddress req) of
        Inl x \<Rightarrow> (Inl x, sent, req_data req)
      | Inr data' \<Rightarrow> (Inr Next, sent, data'))"

text \<open>The end of the \<open>peer\<close> branch: the notification \<open>p2p.internal.acceptNewPeer\<close> is
  sent and not awaited, and the middleware goes on to the end of the \<open>try\<close> block.\<close>

definition acceptNewPeer ::
  "emit_req \<Rightarrow> jsval \<Rightarrow> jsval list \<Rightarrow> (exn + outcome) \<times> jsval list \<times> jsval" where
  "acceptNewPeer req headers sent =
     attachRemoteAddress req headers
       (sent @ [acceptNewPeer_msg (req_remoteAddress req) headers])"

text \<open>The handler given to \<open>.catch\<close> on the notification. It runs when the master's
  answer to the notification arrives, after the middleware has ended (and after the
  \<open>catch\<close> of the middleware, when the \<open>try\<close> block threw): a rejection is logged at
  level \<open>debug\<close>. These messages are not among those the middleware returns.\<close>

definition acceptNewPeer_catch :: "master \<Rightarrow> emit_req \<Rightarrow> jsval \<Rightarrow> jsval list" where
  "acceptNewPeer_catch master req headers =
     (case master (acceptNewPeer_msg (req_remoteAddress req) headers) of
        Rejected ex \<Rightarrow>
          [logRequest (''Failed to accept new peer '' @ req_remoteAddress req @ '': '' @ ex)
             ''debug'']
      | Resolved r \<Rightarrow> [])"

text \<open>One awaited call whose answer is read as \<open>answer.data.field\<close>: the message
  sent, and the field or the exception.\<close>

definition ask :: "master \<Rightarrow> jsval \<Rightarrow> string \<Rightarrow> exn + jsval" where
  "ask master msg field =
     (case master msg of
        Rejected e \<Rightarrow> Inl (RpcError e)
      | Resolved res \<Rightarrow> andThen (getProp res ''data'') (\<lambda>d. getProp d field))"

text \<open>The body of \<open>try\<close> in \<open>handleEmit\<close>; \<open>payload\<close> and \<open>headers\<close> are
  \<open>req.data.data\<close> and \<open>req.data.headers\<close>.\<close>

definition handleEmit_try ::
  "'s schemas \<Rightarrow> 's validator \<Rightarrow> master \<Rightarrow> emit_req \<Rightarrow> jsval \<Rightarrow> jsval
     \<Rightarrow> (exn + outcome) \<times> jsval list \<times> jsval" where
  "handleEmit_try requestSchemas validate master req payload headers =
     (let parts = split_dot (req_event req);
          prefix = element parts 0;
          version = element parts 1;
          handler = element parts 2;
          ip = req_remoteAddress req
      in
        if prefix \<noteq> Some ''p2p'' then (Inr Terminate, [], req_data req)
        else
          let ready_msg = isAppReady_msg in
          (case ask master ready_msg ''ready'' of
             Inl x \<Rightarrow> (Inl x, [ready_msg], req_data req)
           | Inr isAppReady \<Rightarrow>
               if \<not> truthy isAppReady then
                 (Inr (NextError ''App is not ready.''), [ready_msg], req_data req)
               else if version = Some ''internal'' then
                 (let forger_msg = isForgerAuthorized_msg ip in
                  case ask master forger_msg ''authorized'' of
                    Inl x \<Rightarrow> (Inl x, [ready_msg, forger_msg], req_data req)
                  | Inr authorized \<Rightarrow>
                      if \<not> truthy authorized then
                        (Inr Terminate, [ready_msg, forger_msg], req_data req)
                      else attachRemoteAddress req headers [ready_msg, forger_msg])
               else if version = Some ''peer'' then
                 (case requestSchemas ''peer'' of
                    None \<Rightarrow> (Inl TypeError, [ready_msg], req_data req)
                  | Some table \<Rightarrow>
                      let requestSchema = table (propertyKey handler) in
                      if handler \<in> set [Some ''postTransactions'', Some ''postBlock''] then
                        (let peer_msg = isPeerOrForger_msg ip in
                         case ask master peer_msg ''isPeerOrForger'' of
                           Inl x \<Rightarrow> (Inl x, [ready_msg, peer_msg], req_data req)
                         | Inr isPeerOrForger \<Rightarrow>
                             if \<not> truthy isPeerOrForger then
                               (Inr Terminate, [ready_msg, peer_msg], req_data req)
                             else acceptNewPeer req headers [ready_msg, peer_msg])
                      else
                        (case requestSchema of
                           None \<Rightarrow> acceptNewPeer req headers [ready_msg]
                         | Some schema \<Rightarrow>
                             (case validate schema payload of
                                None \<Rightarrow> (Inl ValidatorError, [ready_msg], req_data req)
                              | Some False \<Rightarrow> (Inr Terminate, [ready_msg], req_data req)
                              | Some True \<Rightarrow> acceptNewPeer req headers [ready_msg])))
               else (Inr Terminate, [ready_msg], req_data req)))"

text \<open>\<open>handleEmit(req, next)\<close>: the outcome, the messages sent to the master until
  the middleware ends, in order, and \<open>req.data\<close> afterwards. The call \<open>p2p.internal.getRateLimitStatus\<close> and
  the three \<open>typeof\<close> tests stand before \<open>try\<close>; \<open>catch\<close> logs the message of what
  was thrown inside and terminates.\<close>

definition handleEmit ::
  "'s schemas \<Rightarrow> 's validator \<Rightarrow> master \<Rightarrow> emit_req \<Rightarrow> outcome \<times> jsval list \<times> jsval" where
  "handleEmit requestSchemas validate master req =
     (if length (req_event req) > 128 then (Terminate, [], req_data req)
      else
        let limit_msg = getRateLimitStatus_msg (req_remoteAddress req) (req_event req) in
        (case ask master limit_msg ''exceededLimitOnEndpoint'' of
           Inl x \<Rightarrow> (Throw x, [limit_msg], req_data req)
         | Inr exceeded \<Rightarrow>
             if truthy exceeded then (Terminate, [limit_msg], req_data req)
             else if typeof (req_data req) \<noteq> ''object'' then (Terminate, [limit_msg], req_data req)
             else
               (case getProp (req_data req) ''data'' of
                  Inl x \<Rightarrow> (Throw x, [limit_msg], req_data req)
                | Inr payload \<Rightarrow>
                    if typeof payload \<noteq> ''object'' then (Terminate, [limit_msg], req_data req)
                    else
                      (case getProp (req_data req) ''headers'' of
                         Inl x \<Rightarrow> (Throw x, [limit_msg], req_data req)
                       | Inr headers \<Rightarrow>
                           if typeof headers \<noteq> ''object'' then (Terminate, [limit_msg], req_data req)
                           else
                             (case handleEmit_try requestSchemas validate master req payload headers of
                                (Inl e, sent, data') \<Rightarrow>
                                  (Terminate, limit_msg # sent @ [logRequest (message_of e) ''error''], data')
                              | (Inr out, sent, data') \<Rightarrow> (out, limit_msg # sent, data'))))))"

subsection \<open>Inputs for the examples\<close>

text \<open>An instance of the parameter \<open>cidr\<close>: on a dotted IPv4 address with prefix
  length 24, the first three octets followed by \<open>0\<close>, as \<open>cidr("10.0.0.9/24")\<close> is
  \<open>"10.0.0.0"\<close>.\<close>

definition cidr24 :: "string \<Rightarrow> string" where
  "cidr24 s =
     (let octets = split_dot (takeWhile (\<lambda>c. c \<noteq> CHR ''/'') s)
      in concat (map (\<lambda>octet. octet @ ''.'') (take 3 octets)) @ ''0'')"

text \<open>A master given by a table from endpoint to the \<open>data\<close> of its answer; it
  rejects every other call.\<close>

definition answers :: "(string \<times> jsval) list \<Rightarrow> master" where
  "answers table msg =
     (case getProp msg ''endpoint'' of
        Inr (JStr endpoint) \<Rightarrow>
          (case map_of table endpoint of
             Some v \<Rightarrow> Resolved (JObj [(''data'', v)])
           | None \<Rightarrow> Rejected ''unavailable'')
      | _ \<Rightarrow> Rejected ''unavailable'')"

definition worker0 :: worker where
  "worker0 =
     \<lparr>config = \<lparr>blacklist = Some [''6.6.6.6''], maxSameSubnetPeers = 2\<rparr>,
      handlers = [''p2p.peer.getPeers'', ''p2p.peer.getStatus'', ''p2p.peer.postBlock''],
      ipLastError = Map.empty\<rparr>"

text \<open>Two sockets of the network \<open>10.0.0.0/24\<close>, one of them pending, and one of
  another network; then a third socket of \<open>10.0.0.0/24\<close>.\<close>

definition server0 :: scServer where
  "server0 =
     \<lparr>clients = [(''a'', ''10.0.0.1''), (''b'', ''10.0.7.1'')],
      pendingClients = [(''c'', ''10.0.0.2'')]\<rparr>"

definition server1 :: scServer where
  "server1 =
     \<lparr>clients = [(''a'', ''10.0.0.1''), (''b'', ''10.0.7.1''), (''d'', ''10.0.0.3'')],
      pendingClients = [(''c'', ''10.0.0.2'')]\<rparr>"

definition master0 :: master where
  "master0 = answers [(''p2p.internal.isBlockedByRateLimit'', JObj [(''blocked'', JBool False)])]"

text \<open>A schema table with schemas (here numbers) for \<open>peer.getPeers\<close> and
  \<open>peer.postBlock\<close> and none for \<open>peer.getStatus\<close>, and a validator that rejects
  every payload.\<close>

definition schemas0 :: "nat schemas" where
  "schemas0 version =
     (if version = ''peer'' then Some (map_of [(''getPeers'', 0), (''postBlock'', 1)])
      else if version = ''internal'' then Some Map.empty
      else None)"

definition rejecting :: "nat validator" where
  "rejecting schema v = Some False"

text \<open>A socket that has announced its handshake.\<close>

definition ws0 :: ws where
  "ws0 = \<lparr>ws_disconnected = False, ws_handshake = True, ws_lastPingTime = None,
           ws_terminated = False\<rparr>"

text \<open>Frames as sent on the wire, and what \<open>JSON.parse\<close> makes of them.\<close>

definition quoted :: "string \<Rightarrow> string" where
  "quoted s = CHR 0x22 # s @ [CHR 0x22]"

text \<open>\<open>{"event":"p2p.peer.getPeers","data":{},"cid":"abc"}\<close>\<close>

definition frame_cid_string :: string where
  "frame_cid_string =
     ''{'' @ quoted ''event'' @ '':'' @ quoted ''p2p.peer.getPeers'' @ '','' @ quoted ''data''
       @ '':{},'' @ quoted ''cid'' @ '':'' @ quoted ''abc'' @ ''}''"

definition parsed_cid_string :: jsval where
  "parsed_cid_string =
     JObj [(''event'', JStr ''p2p.peer.getPeers''), (''data'', JObj []), (''cid'', JStr ''abc'')]"

text \<open>\<open>{"event":"p2p.peer.getPeers","data":{"headers":{"version":0}}}\<close>\<close>

definition frame_version_zero :: string where
  "frame_version_zero =
     ''{'' @ quoted ''event'' @ '':'' @ quoted ''p2p.peer.getPeers'' @ '','' @ quoted ''data''
       @ '':{'' @ quoted ''headers'' @ '':{'' @ quoted ''version'' @ '':0}}}''"

definition parsed_version_zero :: jsval where
  "parsed_version_zero =
     JObj [(''event'', JStr ''p2p.peer.getPeers''),
           (''data'', JObj [(''headers'', JObj [(''version'', JNum 0)])])]"

text \<open>\<open>{"event":"p2p.peer.getPeers","data":{"headers":{"version":"2.0.0","port":4002}}}\<close>\<close>

definition frame_headers :: string where
  "frame_headers =
     ''{'' @ quoted ''event'' @ '':'' @ quoted ''p2p.peer.getPeers'' @ '','' @ quoted ''data''
       @ '':{'' @ quoted ''headers'' @ '':{'' @ quoted ''version'' @ '':'' @ quoted ''2.0.0''
       @ '','' @ quoted ''port'' @ '':4002}}}''"

definition parsed_headers :: jsval where
  "parsed_headers =
     JObj [(''event'', JStr ''p2p.peer.getPeers''),
           (''data'', JObj [(''headers'', JObj [(''version'', JStr ''2.0.0''), (''port'', JNum 4002)])])]"

text \<open>\<open>{"event":"p2p.peer.getPeers","data":{"headers":{"port":{"a":1}}}}\<close>\<close>

definition frame_nested :: string where
  "frame_nested =
     ''{'' @ quoted ''event'' @ '':'' @ quoted ''p2p.peer.getPeers'' @ '','' @ quoted ''data''
       @ '':{'' @ quoted ''headers'' @ '':{'' @ quoted ''port'' @ '':{'' @ quoted ''a''
       @ '':1}}}}''"

definition parsed_nested :: jsval where
  "parsed_nested =
     JObj [(''event'', JStr ''p2p.peer.getPeers''),
           (''data'', JObj [(''headers'', JObj [(''port'', JObj [(''a'', JNum 1)])])])]"

text \<open>\<open>{"event":"p2p.peer.getPeers","data":{"headers":{"version":null,"port":"",
  "height":false,"Content-Type":0}}}\<close>\<close>

definition frame_falsy :: string where
  "frame_falsy =
     ''{'' @ quoted ''event'' @ '':'' @ quoted ''p2p.peer.getPeers'' @ '','' @ quoted ''data''
       @ '':{'' @ quoted ''headers'' @ '':{'' @ quoted ''version'' @ '':null,'' @ quoted ''port''
       @ '':'' @ quoted [] @ '','' @ quoted ''height'' @ '':false,'' @ quoted ''Content-Type''
       @ '':0}}}''"

definition parsed_falsy :: jsval where
  "parsed_falsy =
     JObj [(''event'', JStr ''p2p.peer.getPeers''),
           (''data'', JObj [(''headers'', JObj [(''version'', JNull), (''port'', JStr []),
                                              (''height'', JBool False),
                                              (''Content-Type'', JNum 0)])])]"

text \<open>\<open>{"event":"#disconnect"}\<close>\<close>

definition frame_disconnect :: string where
  "frame_disconnect = ''{'' @ quoted ''event'' @ '':'' @ quoted ''#disconnect'' @ ''}''"

definition parsed_disconnect :: jsval where
  "parsed_disconnect = JObj [(''event'', JStr ''#disconnect'')]"

definition parse0 :: "string \<Rightarrow> jsval option" where
  "parse0 =
     map_of [(frame_cid_string, parsed_cid_string), (frame_version_zero, parsed_version_zero),
             (frame_headers, parsed_headers), (frame_nested, parsed_nested),
             (frame_falsy, parsed_falsy), (frame_disconnect, parsed_disconnect)]"

text \<open>Masters: one whose every call is rejected, one that resolves every call with
  \<open>undefined\<close>, and three that answer the calls of \<open>handleEmit\<close>: for a recognized
  peer, for an unknown caller, and for an unknown caller while the application is
  starting.\<close>

definition unreachable :: master where
  "unreachable msg = Rejected ''timeout''"

definition hollow :: master where
  "hollow msg = Resolved JUndefined"

definition master_peer :: master where
  "master_peer =
     answers [(''p2p.internal.getRateLimitStatus'', JObj [(''exceededLimitOnEndpoint'', JBool False)]),
              (''p2p.utils.isAppReady'', JObj [(''ready'', JBool True)]),
              (''p2p.internal.isPeerOrForger'', JObj [(''isPeerOrForger'', JBool True)]),
              (''p2p.internal.acceptNewPeer'', JObj [])]"

definition master_stranger :: master where
  "master_stranger =
     answers [(''p2p.internal.getRateLimitStatus'', JObj [(''exceededLimitOnEndpoint'', JBool False)]),
              (''p2p.utils.isAppReady'', JObj [(''ready'', JBool True)]),
              (''p2p.internal.isPeerOrForger'', JObj [(''isPeerOrForger'', JBool False)]),
              (''p2p.internal.acceptNewPeer'', JObj [])]"

definition master_starting :: master where
  "master_starting =
     answers [(''p2p.internal.getRateLimitStatus'', JObj [(''exceededLimitOnEndpoint'', JBool False)]),
              (''p2p.utils.isAppReady'', JObj [(''ready'', JBool False)]),
              (''p2p.internal.isPeerOrForger'', JObj [(''isPeerOrForger'', JBool False)])]"

text \<open>Calls: \<open>p2p.peer.postBlock\<close> with a payload and headers, the same with
  \<open>headers\<close> set to \<open>null\<close>, and \<open>p2p.peer.getStatus\<close>, for which no schema is
  registered.\<close>

definition req_postBlock :: emit_req where
  "req_postBlock =
     \<lparr>req_event = ''p2p.peer.postBlock'',
      req_data = JObj [(''data'', JObj [(''block'', JStr ''00ff'')]),
                       (''headers'', JObj [(''version'', JStr ''2.0.0'')])],
      req_remoteAddress = ''10.0.0.9''\<rparr>"

definition req_postBlock_null :: emit_req where
  "req_postBlock_null =
     \<lparr>req_event = ''p2p.peer.postBlock'',
      req_data = JObj [(''data'', JObj [(''block'', JStr ''00ff'')]), (''headers'', JNull)],
      req_remoteAddress = ''10.0.0.9''\<rparr>"

definition req_getStatus :: emit_req where
  "req_getStatus =
     \<lparr>req_event = ''p2p.peer.getStatus'',
      req_data = JObj [(''data'', JObj [(''anything'', JNum 1)]),
                       (''headers'', JObj [(''version'', JStr ''2.0.0'')])],
      req_remoteAddress = ''10.0.0.9''\<rparr>"

section \<open>Properties\<close>

subsection \<open>Admission\<close>

text \<open>
  C4, as the code has it. Once the penalty, rate-limit and blacklist tests have passed,
  \<open>handleHandshake\<close> destroys the socket exactly when the number of established and
  pending sockets in the /24 network of the incoming address is strictly greater than
  \<open>maxSameSubnetPeers\<close>; otherwise it calls \<open>next()\<close>. Sockets of other networks are
  not counted.
\<close>

theorem subnet_limit_strict:
  assumes "\<not> isPenalized w now ip"
    and "master (isBlockedByRateLimit_msg ip) = Resolved res"
    and "getProp res ''data'' = Inr d"
    and "getProp d ''blocked'' = Inr blocked"
    and "\<not> truthy blocked"
    and "\<not> isBlacklisted w ip"
  shows "fst (handleHandshake cidr master w sc now ip) =
           (if int (length (sameSubnetSockets cidr sc ip)) > maxSameSubnetPeers (config w)
            then Destroy else Next)"
  using assms by (simp add: handleHandshake_def Let_def)

text \<open>With a limit of 2: two sockets of the network admit a third attempt, three
  sockets reject the next one, and an attempt from another network is admitted.\<close>

theorem subnet_limit_strict_witness:
  "fst (handleHandshake cidr24 master0 worker0 server0 1700000000000 ''10.0.0.9'') = Next
   \<and> fst (handleHandshake cidr24 master0 worker0 server1 1700000000000 ''10.0.0.9'') = Destroy
   \<and> fst (handleHandshake cidr24 master0 worker0 server1 1700000000000 ''10.0.7.9'') = Next"
  using subnet_limit_strict [of worker0 1700000000000 "''10.0.0.9''" master0
          "JObj [(''data'', JObj [(''blocked'', JBool False)])]"
          "JObj [(''blocked'', JBool False)]" "JBool False" cidr24 server0]
        subnet_limit_strict [of worker0 1700000000000 "''10.0.0.9''" master0
          "JObj [(''data'', JObj [(''blocked'', JBool False)])]"
          "JObj [(''blocked'', JBool False)]" "JBool False" cidr24 server1]
        subnet_limit_strict [of worker0 1700000000000 "''10.0.7.9''" master0
          "JObj [(''data'', JObj [(''blocked'', JBool False)])]"
          "JObj [(''blocked'', JBool False)]" "JBool False" cidr24 server1]
  by (simp add: sameSubnetSockets_def isPenalized_def isBlacklisted_def cidr24_def answers_def
        worker0_def server0_def server1_def master0_def request_def)

text \<open>C4 as stated fails: with exactly \<open>maxSameSubnetPeers = 2\<close> sockets of the
  network \<open>10.0.0.0/24\<close>, the attempt from \<open>10.0.0.9\<close> is passed on by \<open>next()\<close>.\<close>

theorem subnet_at_limit_admitted:
  "int (length (sameSubnetSockets cidr24 server0 ''10.0.0.9'')) = maxSameSubnetPeers (config worker0)
   \<and> handleHandshake cidr24 master0 worker0 server0 1700000000000 ''10.0.0.9''
       = (Next, [isBlockedByRateLimit_msg ''10.0.0.9''])"
  by (simp add: handleHandshake_def sameSubnetSockets_def isPenalized_def isBlacklisted_def
        cidr24_def answers_def worker0_def server0_def master0_def request_def)

text \<open>
  C5. An address whose recorded violation (a clock reading \<open>t\<close>, not the epoch itself)
  is less than 60 seconds old has its socket destroyed by \<open>handleHandshake\<close> with no
  message sent to the master and without \<open>next()\<close>. With no record, or a record 60
  seconds old or older, the penalty test passes and the worker goes on to ask the master
  \<open>p2p.internal.isBlockedByRateLimit\<close>.
\<close>

theorem penalized_ip_destroyed_first:
  "(ipLastError w ip = Some t \<and> t \<noteq> 0 \<and> now - t < 60 * 1000 \<longrightarrow>
      handleHandshake cidr master w sc now ip = (Destroy, []))
   \<and> ((ipLastError w ip = None \<or> (ipLastError w ip = Some t \<and> 60 * 1000 \<le> now - t)) \<longrightarrow>
      \<not> isPenalized w now ip
      \<and> snd (handleHandshake cidr master w sc now ip) =
          [isBlockedByRateLimit_msg ip])"
  by (auto simp: handleHandshake_def isPenalized_def MINUTE_IN_MILLISECONDS_def Let_def
      split: option.splits rpc.splits sum.splits)

theorem penalized_ip_destroyed_first_witness:
  "handleHandshake cidr24 master0 (worker0\<lparr>ipLastError := [''10.0.0.9'' \<mapsto> 1700000000000]\<rparr>)
       server0 1700000059999 ''10.0.0.9'' = (Destroy, [])
   \<and> \<not> isPenalized (worker0\<lparr>ipLastError := [''10.0.0.9'' \<mapsto> 1700000000000]\<rparr>)
          1700000060000 ''10.0.0.9''
   \<and> \<not> isPenalized worker0 1700000060000 ''10.0.0.9''"
  using penalized_ip_destroyed_first
          [of "worker0\<lparr>ipLastError := [''10.0.0.9'' \<mapsto> 1700000000000]\<rparr>" "''10.0.0.9''"
              1700000000000 1700000059999 cidr24 master0 server0]
        penalized_ip_destroyed_first
          [of "worker0\<lparr>ipLastError := [''10.0.0.9'' \<mapsto> 1700000000000]\<rparr>" "''10.0.0.9''"
              1700000000000 1700000060000 cidr24 master0 server0]
        penalized_ip_destroyed_first
          [of worker0 "''10.0.0.9''" 0 1700000060000 cidr24 master0 server0]
  by (simp add: worker0_def)

text \<open>
  C6. After the purge no address is penalized, whatever was recorded and whenever: the
  penalty test of \<open>handleHandshake\<close> passes and the master is asked. Before the purge,
  an address with a violation recorded at \<open>t\<close> is penalized while \<open>now - t\<close> is under 60
  seconds.
\<close>

theorem purge_unpenalizes_every_ip:
  "\<not> isPenalized (purge w) now ip
   \<and> snd (handleHandshake cidr master (purge w) sc now ip) =
          [isBlockedByRateLimit_msg ip]
   \<and> isPenalized (fst (setErrorForIpAndTerminate t ip (w, sock))) now ip
       = (t \<noteq> 0 \<and> now - t < 60 * 1000)"
  by (auto simp: handleHandshake_def isPenalized_def purge_def Let_def
        setErrorForIpAndTerminate_def MINUTE_IN_MILLISECONDS_def
      split: option.splits rpc.splits sum.splits)

subsection \<open>The envelope check\<close>

text \<open>The example frames are longer than 9 characters, are not the heartbeat, and
  parse to the values given.\<close>

lemma parse0_frames:
  "parse0 frame_cid_string = Some parsed_cid_string"
  "parse0 frame_version_zero = Some parsed_version_zero"
  "parse0 frame_headers = Some parsed_headers"
  "parse0 frame_nested = Some parsed_nested"
  "parse0 frame_disconnect = Some parsed_disconnect"
  "parse0 frame_falsy = Some parsed_falsy"
  by (simp_all add: parse0_def quoted_def frame_cid_string_def frame_version_zero_def
        frame_headers_def frame_nested_def frame_disconnect_def frame_falsy_def)

lemma frames_length:
  "\<not> length frame_cid_string < 10" "frame_cid_string \<noteq> ''#2''"
  "\<not> length frame_version_zero < 10" "frame_version_zero \<noteq> ''#2''"
  "\<not> length frame_headers < 10" "frame_headers \<noteq> ''#2''"
  "\<not> length frame_nested < 10" "frame_nested \<noteq> ''#2''"
  "\<not> length frame_disconnect < 10" "frame_disconnect \<noteq> ''#2''"
  "\<not> length frame_falsy < 10" "frame_falsy \<noteq> ''#2''"
  by (simp_all add: quoted_def frame_cid_string_def frame_version_zero_def
        frame_headers_def frame_nested_def frame_disconnect_def frame_falsy_def)

text \<open>A frame that reaches the last branch of the listener is left alone when the
  condition \<open>invalidCall\<close> is false, and is a violation otherwise, also when the
  condition throws.\<close>

lemma message_is_call:
  assumes "\<not> ws_disconnected sock" and "message \<noteq> ''#2''" and "10 \<le> length message"
    and "parse message = Some parsed" and "getProp parsed ''event'' = Inr (JStr e)"
    and "e \<noteq> ''#disconnect''" and "e \<noteq> ''#handshake''"
  shows "handlePayload_message parse rs v now ip message (w, sock) =
           (case invalidCall rs v w parsed (JStr e) of
              Inr False \<Rightarrow> (w, sock)
            | _ \<Rightarrow> setErrorForIpAndTerminate now ip (w, sock))"
  using assms
  by (simp add: handlePayload_message_def handleParsed_def andThen_def split: sum.splits bool.splits)

text \<open>The last branch in closed form: what the headers block, the envelope check and
  the whole condition decide, when the properties they read can be read.\<close>

lemma truthy_has_keys:
  "truthy h \<Longrightarrow> \<exists>keys. objectKeys h = Inr keys"
  by (cases h) auto

lemma truthy_has_props:
  "truthy h \<Longrightarrow> \<exists>x. getProp h k = Inr x"
  by (cases h) auto

lemma invalidHeaders_exact:
  assumes "truthy h"
  shows "invalidHeaders h =
           Inr (\<not> ((\<exists>keys. objectKeys h = Inr keys
                       \<and> set keys \<subseteq> {''version'', ''port'', ''height'', ''Content-Type''})
                   \<and> (\<forall>x. getProp h ''version'' = Inr x \<and> truthy x \<longrightarrow> typeof x = ''string'')
                   \<and> (\<forall>x. getProp h ''port'' = Inr x \<and> truthy x \<longrightarrow> typeof x = ''number'')
                   \<and> (\<forall>x. getProp h ''height'' = Inr x \<and> truthy x \<longrightarrow> typeof x = ''number'')
                   \<and> (\<forall>x. getProp h ''Content-Type'' = Inr x \<and> truthy x \<longrightarrow> typeof x = ''string'')))"
proof -
  from assms obtain keys where k: "objectKeys h = Inr keys"
    using truthy_has_keys by blast
  from assms obtain a b c d where p:
    "getProp h ''version'' = Inr a" "getProp h ''port'' = Inr b"
    "getProp h ''Content-Type'' = Inr c" "getProp h ''height'' = Inr d"
    using truthy_has_props by metis
  have f: "(filter (\<lambda>key. key \<noteq> ''version'' \<and> key \<noteq> ''port'' \<and> key \<noteq> ''height''
                          \<and> key \<noteq> ''Content-Type'') keys = [])
           = (set keys \<subseteq> {''version'', ''port'', ''height'', ''Content-Type''})"
    by (auto simp: filter_empty_conv)
  show ?thesis
    unfolding invalidHeaders_def andThen_def k p
    using f by (auto simp del: filter.simps)
qed

lemma readable_has_keys:
  "getProp v k = Inr x \<Longrightarrow> \<exists>keys. objectKeys v = Inr keys"
  by (cases v) auto

lemma event_string_has_keys:
  "getProp parsed ''event'' = Inr (JStr e) \<Longrightarrow> \<exists>keys. objectKeys parsed = Inr keys"
  by (rule readable_has_keys)

lemma hasAdditionalProperties_exact:
  assumes "getProp parsed ''event'' = Inr (JStr e)"
    and "e \<noteq> ''#disconnect''" and "e \<noteq> ''#handshake''"
    and "getProp parsed ''data'' = Inr d"
    and "getProp d ''data'' = Inr payload" and "getProp d ''headers'' = Inr h"
  shows "(hasAdditionalProperties requestSchemas validate parsed = Inr False) =
           ((\<exists>keys. objectKeys parsed = Inr keys \<and> set keys \<subseteq> {''event'', ''data'', ''cid''})
            \<and> length (split_dot e) = 3
            \<and> (\<exists>keys. objectKeys d = Inr keys \<and> set keys \<subseteq> {''data'', ''headers''})
            \<and> (truthy payload \<longrightarrow>
                  invalidPayload requestSchemas validate (split_dot e) payload = Inr False)
            \<and> (truthy h \<longrightarrow> invalidHeaders h = Inr False))"
proof -
  from assms(1) obtain pkeys where pk: "objectKeys parsed = Inr pkeys"
    using readable_has_keys by blast
  from assms(6) obtain dkeys where dk: "objectKeys d = Inr dkeys"
    using readable_has_keys by blast
  let ?top = "filter (\<lambda>key. key \<noteq> ''event'' \<and> key \<noteq> ''data'' \<and> key \<noteq> ''cid'') pkeys"
  let ?sub = "filter (\<lambda>key. key \<noteq> ''data'' \<and> key \<noteq> ''headers'') dkeys"
  let ?pay = "if truthy payload
              then invalidPayload requestSchemas validate (split_dot e) payload else Inr False"
  let ?hdr = "if truthy h then invalidHeaders h else Inr False"
  have f1: "(?top = []) = (set pkeys \<subseteq> {''event'', ''data'', ''cid''})"
    by (auto simp: filter_empty_conv)
  have f2: "(?sub = []) = (set dkeys \<subseteq> {''data'', ''headers''})"
    by (auto simp: filter_empty_conv)
  have form: "hasAdditionalProperties requestSchemas validate parsed =
                (if ?top \<noteq> [] then Inr True
                 else if length (split_dot e) \<noteq> 3 then Inr True
                 else if ?sub \<noteq> [] then Inr True
                 else case ?pay of Inl x \<Rightarrow> Inl x
                      | Inr bad \<Rightarrow> if bad then Inr True else ?hdr)"
    using assms(2,3)
    by (simp add: hasAdditionalProperties_def andThen_def pk dk assms(1,4,5,6) Let_def
          del: filter.simps cong del: if_weak_cong sum.case_cong_weak)
  have pay: "(?pay = Inr False) =
               (truthy payload \<longrightarrow>
                  invalidPayload requestSchemas validate (split_dot e) payload = Inr False)"
    by simp
  have hdr: "(?hdr = Inr False) = (truthy h \<longrightarrow> invalidHeaders h = Inr False)"
    by simp
  have last: "((case ?pay of Inl x \<Rightarrow> Inl x
               | Inr bad \<Rightarrow> if bad then Inr True else ?hdr) = Inr False)
             = (?pay = Inr False \<and> ?hdr = Inr False)"
    by (cases ?pay) (auto simp del: filter.simps)
  have "(hasAdditionalProperties requestSchemas validate parsed = Inr False) =
          (?top = [] \<and> length (split_dot e) = 3 \<and> ?sub = []
           \<and> ?pay = Inr False \<and> ?hdr = Inr False)"
    unfolding form using last by (simp del: filter.simps)
  then show ?thesis
    unfolding f1 f2 pay hdr by (simp add: pk dk)
qed

lemma invalidCall_exact:
  assumes "getProp parsed ''event'' = Inr (JStr e)"
    and "e \<noteq> ''#disconnect''" and "e \<noteq> ''#handshake''"
    and "getProp parsed ''data'' = Inr d"
    and "getProp d ''data'' = Inr payload" and "getProp d ''headers'' = Inr h"
  shows "(invalidCall requestSchemas validate w parsed (JStr e) = Inr False) =
           (typeof d = ''object''
            \<and> hasAdditionalProperties requestSchemas validate parsed = Inr False
            \<and> e \<in> set (handlers w))"
proof -
  from assms(1) obtain c where c: "getProp parsed ''cid'' = Inr c"
    by (cases parsed) auto
  show ?thesis
    unfolding invalidCall_def andThen_def assms(4) c
    using assms(2) by (auto split: sum.splits)
qed


lemma invalidHeaders_nested:
  assumes "map_of hs k = Some x" and "typeof x = ''object''" and "x \<noteq> JNull"
  shows "invalidHeaders (JObj hs) = Inr True"
proof -
  from assms(2,3) have t: "truthy x" by (cases x) auto
  from assms(1) have mem: "k \<in> set (map fst hs)"
    by (metis map_of_eq_None_iff option.distinct(1) set_map)
  show ?thesis
  proof (cases "k \<noteq> ''version'' \<and> k \<noteq> ''port'' \<and> k \<noteq> ''height'' \<and> k \<noteq> ''Content-Type''")
    case True
    with mem have "filter (\<lambda>key. key \<noteq> ''version'' \<and> key \<noteq> ''port'' \<and> key \<noteq> ''height''
                          \<and> key \<noteq> ''Content-Type'') (map fst hs) \<noteq> []"
      by (auto simp: filter_empty_conv)
    then show ?thesis by (simp add: invalidHeaders_def andThen_def)
  next
    case False
    with assms t show ?thesis
      by (auto simp: invalidHeaders_def andThen_def)
  qed
qed



text \<open>
  C2, at the input where the code departs from it: the frame
  \<open>{"event":"p2p.peer.getPeers","data":{},"cid":"abc"}\<close> for a registered handler has
  a \<open>cid\<close> that is a string, and the listener leaves the worker and the socket as they
  were: no violation is recorded and the socket is not terminated. The test of \<open>cid\<close>
  is joined by \<open>&&\<close> with \<open>parsed.event === "#disconnect"\<close>, which is false in this
  branch.
\<close>

theorem cid_string_accepted:
  "typeof (JStr ''abc'') \<noteq> ''number''
   \<and> getProp parsed_cid_string ''cid'' = Inr (JStr ''abc'')
   \<and> handlePayload_message parse0 schemas0 rejecting 1700000000000 ''10.0.0.9'' frame_cid_string (worker0, ws0)
      = (worker0, ws0)"
  by (simp add: handlePayload_message_def handleParsed_def invalidCall_def hasAdditionalProperties_def
     andThen_def parse0_def frame_cid_string_def quoted_def parsed_cid_string_def worker0_def ws0_def)


lemma getProp_other_than_cid:
  "k \<noteq> ''cid'' \<Longrightarrow>
     getProp (JObj (before @ (''cid'', c) # after)) k = getProp (JObj (before @ after)) k"
  by (simp add: map_add_def split: option.splits)

lemma hasAdditionalProperties_cid:
  "hasAdditionalProperties requestSchemas validate (JObj (before @ (''cid'', c) # after))
     = hasAdditionalProperties requestSchemas validate (JObj (before @ (''cid'', c') # after))"
  by (simp add: hasAdditionalProperties_def getProp_other_than_cid del: getProp.simps
        cong del: if_weak_cong jsval.case_cong_weak sum.case_cong_weak)

lemma invalidCall_cid:
  "event \<noteq> JStr ''#disconnect'' \<Longrightarrow>
   invalidCall requestSchemas validate w (JObj (before @ (''cid'', c) # after)) event
     = invalidCall requestSchemas validate w (JObj (before @ (''cid'', c') # after)) event"
  by (simp add: invalidCall_def andThen_def getProp_other_than_cid
        getProp.simps(3) [of _ "''cid''"]
        hasAdditionalProperties_cid [of _ _ before c after c']
        del: getProp.simps cong del: if_weak_cong sum.case_cong_weak)


text \<open>
  Beyond the one frame: in the body of \<open>try\<close>, the value stored under \<open>cid\<close> never
  matters. Two parsed objects that differ only in that value are handled alike, whatever
  the values are.
\<close>

theorem cid_is_never_checked:
  "handleParsed requestSchemas validate now ip (JObj (before @ (''cid'', c) # after)) s
     = handleParsed requestSchemas validate now ip (JObj (before @ (''cid'', c') # after)) s"
proof (cases "getProp (JObj (before @ after)) ''event''")
  case (Inl x)
  then show ?thesis
    by (simp add: handleParsed_def andThen_def getProp_other_than_cid del: getProp.simps)
next
  case (Inr event)
  show ?thesis
  proof (cases "event = JStr ''#disconnect''")
    case True
    with Inr show ?thesis
      by (simp add: handleParsed_def andThen_def getProp_other_than_cid del: getProp.simps)
  next
    case False
    from invalidCall_cid [OF False, of requestSchemas validate "fst s" before c after c'] Inr
    show ?thesis
      by (simp add: handleParsed_def andThen_def getProp_other_than_cid del: getProp.simps)
  qed
qed

text \<open>
  C3 as stated fails: in the frame
  \<open>{"event":"p2p.peer.getPeers","data":{"headers":{"version":0}}}\<close> the header
  \<open>version\<close> is present and is a number, not a string, and the frame is accepted. The
  type test of each header is guarded by the truthiness of its value.
\<close>

theorem version_zero_accepted:
  "getProp (JObj [(''version'', JNum 0)]) ''version'' = Inr (JNum 0)
   \<and> typeof (JNum 0) \<noteq> ''string''
   \<and> handlePayload_message parse0 schemas0 rejecting 1700000000000 ''10.0.0.9'' frame_version_zero (worker0, ws0)
      = (worker0, ws0)"
  by (simp add: handlePayload_message_def handleParsed_def invalidCall_def hasAdditionalProperties_def
     invalidHeaders_def
     andThen_def parse0_def frame_cid_string_def frame_version_zero_def quoted_def parsed_version_zero_def worker0_def ws0_def)


text \<open>
  C3, as the code has it. For a structured-call frame whose \<open>data.data\<close> and
  \<open>data.headers\<close> can be read, the listener leaves the state as it is exactly when the
  other tests of the envelope pass (\<open>data\<close> of type \<open>object\<close>, no top-level key
  besides \<open>event\<close>, \<open>data\<close>, \<open>cid\<close>, three segments in the event, no key of \<open>data\<close>
  besides \<open>data\<close> and \<open>headers\<close>, a truthy payload valid, the event registered) and,
  if \<open>data.headers\<close> is truthy, every key of the headers is one of \<open>version\<close>,
  \<open>port\<close>, \<open>height\<close>, \<open>Content-Type\<close> and each of the four whose value is truthy
  has its type (string, number, number, string); in every other case it records a
  violation and terminates. So headers that are falsy are not looked at, and neither is
  a falsy value under one of the four keys. A header whose value is a nested object or
  array makes the frame a violation. The headers \<open>{"version":"2.0.0","port":4002}\<close>
  pass the check.
\<close>

theorem headers_checked_when_truthy:
  assumes "\<not> ws_disconnected sock" and "message \<noteq> ''#2''" and "10 \<le> length message"
    and "parse message = Some parsed" and "getProp parsed ''event'' = Inr (JStr e)"
    and "e \<noteq> ''#disconnect''" and "e \<noteq> ''#handshake''"
    and "getProp parsed ''data'' = Inr d"
    and "getProp d ''data'' = Inr payload" and "getProp d ''headers'' = Inr h"
  shows
    "handlePayload_message parse requestSchemas validate now ip message (w, sock) =
       (if typeof d = ''object''
           \<and> (\<exists>keys. objectKeys parsed = Inr keys \<and> set keys \<subseteq> {''event'', ''data'', ''cid''})
           \<and> length (split_dot e) = 3
           \<and> (\<exists>keys. objectKeys d = Inr keys \<and> set keys \<subseteq> {''data'', ''headers''})
           \<and> (truthy payload \<longrightarrow>
                 invalidPayload requestSchemas validate (split_dot e) payload = Inr False)
           \<and> (truthy h \<longrightarrow>
                 (\<exists>keys. objectKeys h = Inr keys
                    \<and> set keys \<subseteq> {''version'', ''port'', ''height'', ''Content-Type''})
                 \<and> (\<forall>x. getProp h ''version'' = Inr x \<and> truthy x \<longrightarrow> typeof x = ''string'')
                 \<and> (\<forall>x. getProp h ''port'' = Inr x \<and> truthy x \<longrightarrow> typeof x = ''number'')
                 \<and> (\<forall>x. getProp h ''height'' = Inr x \<and> truthy x \<longrightarrow> typeof x = ''number'')
                 \<and> (\<forall>x. getProp h ''Content-Type'' = Inr x \<and> truthy x \<longrightarrow> typeof x = ''string''))
           \<and> e \<in> set (handlers w)
        then (w, sock)
        else setErrorForIpAndTerminate now ip (w, sock))
     \<and> ((\<exists>hs k x. h = JObj hs \<and> map_of hs k = Some x \<and> typeof x = ''object'' \<and> x \<noteq> JNull) \<longrightarrow>
          handlePayload_message parse requestSchemas validate now ip message (w, sock)
            = setErrorForIpAndTerminate now ip (w, sock))
     \<and> invalidHeaders (JObj [(''version'', JStr ''2.0.0''), (''port'', JNum 4002)]) = Inr False"
proof -
  let ?r = "handlePayload_message parse requestSchemas validate now ip message (w, sock)"
  let ?bad = "setErrorForIpAndTerminate now ip (w, sock)"
  let ?shape = "(\<exists>keys. objectKeys h = Inr keys
                    \<and> set keys \<subseteq> {''version'', ''port'', ''height'', ''Content-Type''})
                 \<and> (\<forall>x. getProp h ''version'' = Inr x \<and> truthy x \<longrightarrow> typeof x = ''string'')
                 \<and> (\<forall>x. getProp h ''port'' = Inr x \<and> truthy x \<longrightarrow> typeof x = ''number'')
                 \<and> (\<forall>x. getProp h ''height'' = Inr x \<and> truthy x \<longrightarrow> typeof x = ''number'')
                 \<and> (\<forall>x. getProp h ''Content-Type'' = Inr x \<and> truthy x \<longrightarrow> typeof x = ''string'')"
  have r: "?r = (case invalidCall requestSchemas validate w parsed (JStr e) of
                   Inr False \<Rightarrow> (w, sock) | _ \<Rightarrow> ?bad)"
    using assms(1-7) by (rule message_is_call)
  have r': "?r = (if invalidCall requestSchemas validate w parsed (JStr e) = Inr False
                  then (w, sock) else ?bad)"
    unfolding r by (simp split: sum.splits bool.splits)
  have hdr: "(truthy h \<longrightarrow> invalidHeaders h = Inr False) = (truthy h \<longrightarrow> ?shape)"
    using invalidHeaders_exact [of h] by auto
  have call: "(invalidCall requestSchemas validate w parsed (JStr e) = Inr False) =
           (typeof d = ''object''
            \<and> (\<exists>keys. objectKeys parsed = Inr keys \<and> set keys \<subseteq> {''event'', ''data'', ''cid''})
            \<and> length (split_dot e) = 3
            \<and> (\<exists>keys. objectKeys d = Inr keys \<and> set keys \<subseteq> {''data'', ''headers''})
            \<and> (truthy payload \<longrightarrow>
                  invalidPayload requestSchemas validate (split_dot e) payload = Inr False)
            \<and> (truthy h \<longrightarrow> ?shape)
            \<and> e \<in> set (handlers w))"
    unfolding invalidCall_exact [OF assms(5-10)] hasAdditionalProperties_exact [OF assms(5-10)] hdr
    by blast
  have one: "?r = (if typeof d = ''object''
            \<and> (\<exists>keys. objectKeys parsed = Inr keys \<and> set keys \<subseteq> {''event'', ''data'', ''cid''})
            \<and> length (split_dot e) = 3
            \<and> (\<exists>keys. objectKeys d = Inr keys \<and> set keys \<subseteq> {''data'', ''headers''})
            \<and> (truthy payload \<longrightarrow>
                  invalidPayload requestSchemas validate (split_dot e) payload = Inr False)
            \<and> (truthy h \<longrightarrow> ?shape)
            \<and> e \<in> set (handlers w) then (w, sock) else ?bad)"
    unfolding r' call ..
  have two: "(\<exists>hs k x. h = JObj hs \<and> map_of hs k = Some x \<and> typeof x = ''object'' \<and> x \<noteq> JNull) \<longrightarrow>
          ?r = ?bad"
  proof
    assume "\<exists>hs k x. h = JObj hs \<and> map_of hs k = Some x \<and> typeof x = ''object'' \<and> x \<noteq> JNull"
    then obtain hs k x where n: "h = JObj hs" "map_of hs k = Some x" "typeof x = ''object''" "x \<noteq> JNull"
      by blast
    then have "invalidHeaders h = Inr True" using invalidHeaders_nested by blast
    moreover have "truthy h" using n(1) by simp
    ultimately have "\<not> (truthy h \<longrightarrow> invalidHeaders h = Inr False)" by simp
    then have "invalidCall requestSchemas validate w parsed (JStr e) \<noteq> Inr False"
      unfolding invalidCall_exact [OF assms(5-10)] hasAdditionalProperties_exact [OF assms(5-10)]
      by blast
    then show "?r = ?bad" unfolding r' by simp
  qed
  have three: "invalidHeaders (JObj [(''version'', JStr ''2.0.0''), (''port'', JNum 4002)]) = Inr False"
    by (simp add: invalidHeaders_def andThen_def)
  from one two three show ?thesis by blast
qed



text \<open>A frame with the header \<open>port\<close> set to the object \<open>{"a":1}\<close> records a violation
  for the address and terminates the socket. Accepted, with nothing changed, are the
  frame with the headers \<open>{"version":"2.0.0","port":4002}\<close>, the frame whose four
  headers are \<open>null\<close>, \<open>""\<close>, \<open>false\<close> and \<open>0\<close>, and a frame without headers.\<close>

theorem headers_checked_when_truthy_witness:
  "handlePayload_message parse0 schemas0 rejecting 1700000000000 ''10.0.0.9'' frame_nested (worker0, ws0)
     = setErrorForIpAndTerminate 1700000000000 ''10.0.0.9'' (worker0, ws0)
   \<and> ipLastError (fst (handlePayload_message parse0 schemas0 rejecting 1700000000000 ''10.0.0.9''
        frame_nested (worker0, ws0))) ''10.0.0.9'' = Some 1700000000000
   \<and> ws_terminated (snd (handlePayload_message parse0 schemas0 rejecting 1700000000000 ''10.0.0.9''
        frame_nested (worker0, ws0)))
   \<and> handlePayload_message parse0 schemas0 rejecting 1700000000000 ''10.0.0.9'' frame_headers (worker0, ws0)
     = (worker0, ws0)
   \<and> handlePayload_message parse0 schemas0 rejecting 1700000000000 ''10.0.0.9'' frame_falsy (worker0, ws0)
     = (worker0, ws0)
   \<and> handlePayload_message parse0 schemas0 rejecting 1700000000000 ''10.0.0.9'' frame_cid_string (worker0, ws0)
     = (worker0, ws0)"
proof -
  have common:
    "\<not> ws_disconnected ws0" "''p2p.peer.getPeers'' \<noteq> ''#disconnect''"
    "''p2p.peer.getPeers'' \<noteq> ''#handshake''"
    by (simp_all add: ws0_def)
  have len:
    "10 \<le> length frame_nested" "10 \<le> length frame_headers" "10 \<le> length frame_falsy"
    "10 \<le> length frame_cid_string"
    using frames_length by simp_all
  have nested:
    "getProp parsed_nested ''event'' = Inr (JStr ''p2p.peer.getPeers'')"
    "getProp parsed_nested ''data'' = Inr (JObj [(''headers'', JObj [(''port'', JObj [(''a'', JNum 1)])])])"
    "getProp (JObj [(''headers'', JObj [(''port'', JObj [(''a'', JNum 1)])])]) ''data'' = Inr JUndefined"
    "getProp (JObj [(''headers'', JObj [(''port'', JObj [(''a'', JNum 1)])])]) ''headers''
       = Inr (JObj [(''port'', JObj [(''a'', JNum 1)])])"
    by (simp_all add: parsed_nested_def)
  have headers:
    "getProp parsed_headers ''event'' = Inr (JStr ''p2p.peer.getPeers'')"
    "getProp parsed_headers ''data''
       = Inr (JObj [(''headers'', JObj [(''version'', JStr ''2.0.0''), (''port'', JNum 4002)])])"
    "getProp (JObj [(''headers'', JObj [(''version'', JStr ''2.0.0''), (''port'', JNum 4002)])]) ''data''
       = Inr JUndefined"
    "getProp (JObj [(''headers'', JObj [(''version'', JStr ''2.0.0''), (''port'', JNum 4002)])]) ''headers''
       = Inr (JObj [(''version'', JStr ''2.0.0''), (''port'', JNum 4002)])"
    by (simp_all add: parsed_headers_def)
  have falsy:
    "getProp parsed_falsy ''event'' = Inr (JStr ''p2p.peer.getPeers'')"
    "getProp parsed_falsy ''data''
       = Inr (JObj [(''headers'', JObj [(''version'', JNull), (''port'', JStr []),
                                       (''height'', JBool False), (''Content-Type'', JNum 0)])])"
    "getProp (JObj [(''headers'', JObj [(''version'', JNull), (''port'', JStr []),
                                       (''height'', JBool False), (''Content-Type'', JNum 0)])]) ''data''
       = Inr JUndefined"
    "getProp (JObj [(''headers'', JObj [(''version'', JNull), (''port'', JStr []),
                                       (''height'', JBool False), (''Content-Type'', JNum 0)])]) ''headers''
       = Inr (JObj [(''version'', JNull), (''port'', JStr []),
                    (''height'', JBool False), (''Content-Type'', JNum 0)])"
    by (simp_all add: parsed_falsy_def)
  have absent:
    "getProp parsed_cid_string ''event'' = Inr (JStr ''p2p.peer.getPeers'')"
    "getProp parsed_cid_string ''data'' = Inr (JObj [])"
    "getProp (JObj []) ''data'' = Inr JUndefined"
    "getProp (JObj []) ''headers'' = Inr JUndefined"
    by (simp_all add: parsed_cid_string_def)
  have a: "handlePayload_message parse0 schemas0 rejecting 1700000000000 ''10.0.0.9'' frame_nested (worker0, ws0)
     = setErrorForIpAndTerminate 1700000000000 ''10.0.0.9'' (worker0, ws0)"
    using headers_checked_when_truthy
            [where sock = ws0 and message = frame_nested and parse = parse0 and parsed = parsed_nested
               and e = "''p2p.peer.getPeers''"
               and d = "JObj [(''headers'', JObj [(''port'', JObj [(''a'', JNum 1)])])]"
               and payload = JUndefined
               and h = "JObj [(''port'', JObj [(''a'', JNum 1)])]"
               and requestSchemas = schemas0 and validate = rejecting and now = 1700000000000
               and ip = "''10.0.0.9''" and w = worker0,
             OF common(1) frames_length(8) len(1) parse0_frames(4) nested(1) common(2,3)
                nested(2-4)]
    by simp
  have b: "handlePayload_message parse0 schemas0 rejecting 1700000000000 ''10.0.0.9'' frame_headers (worker0, ws0)
     = (worker0, ws0)"
    using headers_checked_when_truthy
            [where sock = ws0 and message = frame_headers and parse = parse0 and parsed = parsed_headers
               and e = "''p2p.peer.getPeers''"
               and d = "JObj [(''headers'', JObj [(''version'', JStr ''2.0.0''), (''port'', JNum 4002)])]"
               and payload = JUndefined
               and h = "JObj [(''version'', JStr ''2.0.0''), (''port'', JNum 4002)]"
               and requestSchemas = schemas0 and validate = rejecting and now = 1700000000000
               and ip = "''10.0.0.9''" and w = worker0,
             OF common(1) frames_length(6) len(2) parse0_frames(3) headers(1) common(2,3)
                headers(2-4)]
    by (simp add: parsed_headers_def worker0_def)
  have c: "handlePayload_message parse0 schemas0 rejecting 1700000000000 ''10.0.0.9'' frame_falsy (worker0, ws0)
     = (worker0, ws0)"
    using headers_checked_when_truthy
            [where sock = ws0 and message = frame_falsy and parse = parse0 and parsed = parsed_falsy
               and e = "''p2p.peer.getPeers''"
               and d = "JObj [(''headers'', JObj [(''version'', JNull), (''port'', JStr []), (''height'', JBool False), (''Content-Type'', JNum 0)])]"
               and payload = JUndefined
               and h = "JObj [(''version'', JNull), (''port'', JStr []), (''height'', JBool False), (''Content-Type'', JNum 0)]"
               and requestSchemas = schemas0 and validate = rejecting and now = 1700000000000
               and ip = "''10.0.0.9''" and w = worker0,
             OF common(1) frames_length(12) len(3) parse0_frames(6) falsy(1) common(2,3)
                falsy(2-4)]
    by (simp add: parsed_falsy_def worker0_def)
  have d: "handlePayload_message parse0 schemas0 rejecting 1700000000000 ''10.0.0.9'' frame_cid_string (worker0, ws0)
     = (worker0, ws0)"
    using headers_checked_when_truthy
            [where sock = ws0 and message = frame_cid_string and parse = parse0 and parsed = parsed_cid_string
               and e = "''p2p.peer.getPeers''"
               and d = "JObj []"
               and payload = JUndefined
               and h = "JUndefined"
               and requestSchemas = schemas0 and validate = rejecting and now = 1700000000000
               and ip = "''10.0.0.9''" and w = worker0,
             OF common(1) frames_length(2) len(4) parse0_frames(1) absent(1) common(2,3)
                absent(2-4)]
    by (simp add: parsed_cid_string_def worker0_def)
  show ?thesis unfolding a using b c d by (simp add: setErrorForIpAndTerminate_def)
qed

subsection \<open>Frames after a disconnect\<close>









subsection \<open>Authorization\<close>

text \<open>Writing the remote address into headers that are an object or an array does
  not throw, so the notification \<open>acceptNewPeer\<close> is then followed by \<open>next()\<close>; and a
  request that passes the tests standing before \<open>try\<close> ends as the body of \<open>try\<close>
  ends, an exception thrown there being logged and turned into a termination.\<close>

lemma setRemoteAddress_object:
  "typeof headers = ''object'' \<Longrightarrow> headers \<noteq> JNull \<Longrightarrow>
     \<exists>data'. setRemoteAddress data headers ip = Inr data'"
  by (cases headers) (auto simp: setRemoteAddress_def split: jsval.splits)

lemma acceptNewPeer_object:
  assumes "typeof headers = ''object''" and "headers \<noteq> JNull"
  shows "\<exists>data'. acceptNewPeer req headers sent
           = (Inr Next, sent @ [acceptNewPeer_msg (req_remoteAddress req) headers], data')"
proof -
  from setRemoteAddress_object [OF assms] obtain data'
    where "setRemoteAddress (req_data req) headers (req_remoteAddress req) = Inr data'" by blast
  then show ?thesis
    by (simp add: acceptNewPeer_def attachRemoteAddress_def)
qed

lemma handleEmit_reaches_try:
  assumes "length (req_event req) \<le> 128"
    and "ask master (getRateLimitStatus_msg (req_remoteAddress req) (req_event req))
           ''exceededLimitOnEndpoint'' = Inr exceeded"
    and "\<not> truthy exceeded"
    and "typeof (req_data req) = ''object''"
    and "getProp (req_data req) ''data'' = Inr payload" and "typeof payload = ''object''"
    and "getProp (req_data req) ''headers'' = Inr headers" and "typeof headers = ''object''"
  shows "handleEmit requestSchemas validate master req =
           (case handleEmit_try requestSchemas validate master req payload headers of
              (Inl e, sent, data') \<Rightarrow>
                (Terminate,
                 getRateLimitStatus_msg (req_remoteAddress req) (req_event req)
                   # sent @ [logRequest (message_of e) ''error''],
                 data')
            | (Inr out, sent, data') \<Rightarrow>
                (out, getRateLimitStatus_msg (req_remoteAddress req) (req_event req) # sent, data'))"
  using assms by (simp add: handleEmit_def Let_def)


text \<open>
  C1, at the inputs where the code departs from it. When the master rejects the call
  \<open>p2p.internal.getRateLimitStatus\<close> of \<open>handleEmit\<close>, or
  \<open>p2p.internal.isBlockedByRateLimit\<close> of \<open>handleHandshake\<close>, or resolves it with
  \<open>undefined\<close>, the failure leaves the middleware as an exception: nothing is logged,
  the socket is neither terminated nor destroyed, and \<open>next\<close> is not called. Both
  calls stand outside any \<open>try\<close>.
\<close>

theorem coordinator_failure_escapes:
  "handleEmit schemas0 rejecting unreachable req_postBlock =
     (Throw (RpcError ''timeout''), [getRateLimitStatus_msg ''10.0.0.9'' ''p2p.peer.postBlock''],
      req_data req_postBlock)
   \<and> handleEmit schemas0 rejecting hollow req_postBlock =
     (Throw TypeError, [getRateLimitStatus_msg ''10.0.0.9'' ''p2p.peer.postBlock''],
      req_data req_postBlock)
   \<and> handleHandshake cidr24 unreachable worker0 server0 1700000000000 ''10.0.0.9'' =
     (Throw (RpcError ''timeout''), [isBlockedByRateLimit_msg ''10.0.0.9''])
   \<and> handleHandshake cidr24 hollow worker0 server0 1700000000000 ''10.0.0.9'' =
     (Throw TypeError, [isBlockedByRateLimit_msg ''10.0.0.9''])"
  by (simp add: handleEmit_def handleEmit_try_def ask_def acceptNewPeer_def
        attachRemoteAddress_def setRemoteAddress_def andThen_def element_def propertyKey_def
        logRequest_def request_def answers_def Let_def handleHandshake_def isPenalized_def unreachable_def hollow_def
        req_postBlock_def worker0_def)


text \<open>
  C7, at the input where the code departs from it: a call whose rate-limit round trip
  is rejected fails without terminating the socket, and this failure is not the
  \<open>not ready\<close> outcome.
\<close>

theorem rate_limit_failure_leaves_socket_open:
  "fst (handleEmit schemas0 rejecting unreachable req_getStatus) = Throw (RpcError ''timeout'')
   \<and> fst (handleEmit schemas0 rejecting unreachable req_getStatus) \<noteq> Terminate
   \<and> fst (handleEmit schemas0 rejecting unreachable req_getStatus) \<noteq> NextError ''App is not ready.''
   \<and> fst (handleEmit schemas0 rejecting unreachable req_getStatus) \<noteq> Next"
  by (simp add: handleEmit_def handleEmit_try_def ask_def acceptNewPeer_def
        attachRemoteAddress_def setRemoteAddress_def andThen_def element_def propertyKey_def
        logRequest_def request_def answers_def Let_def unreachable_def req_getStatus_def)


text \<open>
  The first half of C7 holds: a call that has passed the length, rate-limit, shape and
  namespace tests, for which the master reports the application not ready, ends with
  \<open>next(new Error("App is not ready."))\<close>; the socket is not terminated and
  \<open>req.data\<close> is untouched.
\<close>

theorem not_ready_is_recoverable:
  assumes "length (req_event req) \<le> 128"
    and "ask master (getRateLimitStatus_msg (req_remoteAddress req) (req_event req))
           ''exceededLimitOnEndpoint'' = Inr exceeded"
    and "\<not> truthy exceeded"
    and "typeof (req_data req) = ''object''"
    and "getProp (req_data req) ''data'' = Inr payload" and "typeof payload = ''object''"
    and "getProp (req_data req) ''headers'' = Inr headers" and "typeof headers = ''object''"
    and "element (split_dot (req_event req)) 0 = Some ''p2p''"
    and "ask master isAppReady_msg ''ready'' = Inr ready" and "\<not> truthy ready"
  shows "handleEmit requestSchemas validate master req =
           (NextError ''App is not ready.'',
            [getRateLimitStatus_msg (req_remoteAddress req) (req_event req), isAppReady_msg],
            req_data req)"
proof -
  have "handleEmit_try requestSchemas validate master req payload headers =
          (Inr (NextError ''App is not ready.''), [isAppReady_msg], req_data req)"
    using assms(9-11) by (simp add: handleEmit_try_def Let_def)
  then show ?thesis
    by (simp add: handleEmit_reaches_try [OF assms(1-8), of requestSchemas validate])
qed


theorem not_ready_is_recoverable_witness:
  "handleEmit schemas0 rejecting master_starting req_postBlock =
     (NextError ''App is not ready.'',
      [getRateLimitStatus_msg ''10.0.0.9'' ''p2p.peer.postBlock'', isAppReady_msg],
      req_data req_postBlock)"
  using not_ready_is_recoverable
          [where req = req_postBlock and master = master_starting and exceeded = "JBool False"
             and payload = "JObj [(''block'', JStr ''00ff'')]"
             and headers = "JObj [(''version'', JStr ''2.0.0'')]" and ready = "JBool False"
             and requestSchemas = schemas0 and validate = rejecting]
  by (simp add: ask_def andThen_def request_def answers_def master_starting_def
        req_postBlock_def element_def)



text \<open>
  C8 as stated fails, at two calls \<open>p2p.peer.postBlock\<close>. While the application is not
  ready, the call of a caller the master does not recognize ends with the error
  \<open>App is not ready.\<close>: the master is not asked \<open>isPeerOrForger\<close> and the socket is not
  terminated. And a recognized peer whose call carries \<open>"headers": null\<close> is terminated.
\<close>

theorem postBlock_not_always_decided_by_isPeerOrForger:
  "ask master_starting (isPeerOrForger_msg ''10.0.0.9'') ''isPeerOrForger'' = Inr (JBool False)
   \<and> handleEmit schemas0 rejecting master_starting req_postBlock =
     (NextError ''App is not ready.'',
      [getRateLimitStatus_msg ''10.0.0.9'' ''p2p.peer.postBlock'', isAppReady_msg],
      req_data req_postBlock)
   \<and> getProp (req_data req_postBlock_null) ''headers'' = Inr JNull
   \<and> ask master_peer (isPeerOrForger_msg ''10.0.0.9'') ''isPeerOrForger'' = Inr (JBool True)
   \<and> fst (handleEmit schemas0 rejecting master_peer req_postBlock_null) = Terminate"
  by (simp add: handleEmit_def handleEmit_try_def ask_def acceptNewPeer_def
        attachRemoteAddress_def setRemoteAddress_def andThen_def element_def propertyKey_def
        logRequest_def request_def answers_def Let_def master_peer_def master_starting_def
        req_postBlock_def req_postBlock_null_def schemas0_def)

text \<open>
  C8, as the code has it by design. For a call to \<open>p2p.peer.postBlock\<close> or
  \<open>p2p.peer.postTransactions\<close> that has passed the length, rate-limit, shape
  (\<open>typeof\<close>), namespace and readiness tests, \<open>handleEmit\<close> asks the master
  \<open>p2p.internal.isPeerOrForger\<close> for the caller's address. A falsy answer terminates
  the socket; the notification \<open>p2p.internal.acceptNewPeer\<close> is not sent. A truthy
  answer, for headers that are not \<open>null\<close>, sends the notification and calls
  \<open>next()\<close>. The validator \<open>validate\<close> is arbitrary: the payload is not validated
  here.
\<close>

theorem privileged_peer_call:
  assumes "length (req_event req) \<le> 128"
    and "split_dot (req_event req) = [''p2p'', ''peer'', handler]"
    and "handler = ''postBlock'' \<or> handler = ''postTransactions''"
    and "requestSchemas ''peer'' = Some table"
    and "ask master (getRateLimitStatus_msg (req_remoteAddress req) (req_event req))
           ''exceededLimitOnEndpoint'' = Inr exceeded"
    and "\<not> truthy exceeded"
    and "typeof (req_data req) = ''object''"
    and "getProp (req_data req) ''data'' = Inr payload" and "typeof payload = ''object''"
    and "getProp (req_data req) ''headers'' = Inr headers" and "typeof headers = ''object''"
    and "ask master isAppReady_msg ''ready'' = Inr ready" and "truthy ready"
    and "ask master (isPeerOrForger_msg (req_remoteAddress req)) ''isPeerOrForger'' = Inr recognized"
  shows "(\<not> truthy recognized \<longrightarrow>
            handleEmit requestSchemas validate master req =
              (Terminate,
               [getRateLimitStatus_msg (req_remoteAddress req) (req_event req), isAppReady_msg,
                isPeerOrForger_msg (req_remoteAddress req)],
               req_data req))
       \<and> (truthy recognized \<and> headers \<noteq> JNull \<longrightarrow>
            fst (handleEmit requestSchemas validate master req) = Next
            \<and> fst (snd (handleEmit requestSchemas validate master req)) =
                 [getRateLimitStatus_msg (req_remoteAddress req) (req_event req), isAppReady_msg,
                  isPeerOrForger_msg (req_remoteAddress req),
                  acceptNewPeer_msg (req_remoteAddress req) headers])"
proof -
  let ?limit = "getRateLimitStatus_msg (req_remoteAddress req) (req_event req)"
  let ?peer = "isPeerOrForger_msg (req_remoteAddress req)"
  have h: "handler \<in> {''postTransactions'', ''postBlock''}" using assms(3) by auto
  have body: "handleEmit_try requestSchemas validate master req payload headers =
               (if \<not> truthy recognized then (Inr Terminate, [isAppReady_msg, ?peer], req_data req)
                else acceptNewPeer req headers [isAppReady_msg, ?peer])"
    using assms(2,4,12,13,14) h
    by (auto simp: handleEmit_try_def element_def Let_def)
  note emit = handleEmit_reaches_try [OF assms(1,5-11), of requestSchemas validate]
  have falsy: "\<not> truthy recognized \<longrightarrow>
            handleEmit requestSchemas validate master req =
              (Terminate, [?limit, isAppReady_msg, ?peer], req_data req)"
    by (simp add: emit body)
  have truthy: "truthy recognized \<and> headers \<noteq> JNull \<longrightarrow>
            fst (handleEmit requestSchemas validate master req) = Next
            \<and> fst (snd (handleEmit requestSchemas validate master req)) =
                 [?limit, isAppReady_msg, ?peer, acceptNewPeer_msg (req_remoteAddress req) headers]"
  proof
    assume a: "truthy recognized \<and> headers \<noteq> JNull"
    then have "headers \<noteq> JNull" by simp
    from acceptNewPeer_object [OF assms(11) this, of req "[isAppReady_msg, ?peer]"]
    obtain data' where
      "acceptNewPeer req headers [isAppReady_msg, ?peer]
         = (Inr Next, [isAppReady_msg, ?peer] @ [acceptNewPeer_msg (req_remoteAddress req) headers], data')"
      by blast
    with a show "fst (handleEmit requestSchemas validate master req) = Next
            \<and> fst (snd (handleEmit requestSchemas validate master req)) =
                 [?limit, isAppReady_msg, ?peer, acceptNewPeer_msg (req_remoteAddress req) headers]"
      by (simp add: emit body)
  qed
  from falsy truthy show ?thesis by blast
qed

text \<open>The call \<open>p2p.peer.postBlock\<close> of an unknown caller is terminated; that of a
  recognized peer is passed on, after the notification. The same holds for an unknown
  caller whose headers are \<open>null\<close>.\<close>

theorem privileged_peer_call_witness:
  "handleEmit schemas0 rejecting master_stranger req_postBlock =
     (Terminate,
      [getRateLimitStatus_msg ''10.0.0.9'' ''p2p.peer.postBlock'', isAppReady_msg,
       isPeerOrForger_msg ''10.0.0.9''],
      req_data req_postBlock)
   \<and> fst (handleEmit schemas0 rejecting master_peer req_postBlock) = Next
   \<and> fst (snd (handleEmit schemas0 rejecting master_peer req_postBlock)) =
       [getRateLimitStatus_msg ''10.0.0.9'' ''p2p.peer.postBlock'', isAppReady_msg,
        isPeerOrForger_msg ''10.0.0.9'',
        acceptNewPeer_msg ''10.0.0.9'' (JObj [(''version'', JStr ''2.0.0'')])]
   \<and> handleEmit schemas0 rejecting master_stranger req_postBlock_null =
     (Terminate,
      [getRateLimitStatus_msg ''10.0.0.9'' ''p2p.peer.postBlock'', isAppReady_msg,
       isPeerOrForger_msg ''10.0.0.9''],
      req_data req_postBlock_null)"
  using privileged_peer_call
          [where req = req_postBlock and handler = "''postBlock''" and requestSchemas = schemas0
             and table = "map_of [(''getPeers'', 0), (''postBlock'', 1)]" and master = master_stranger
             and exceeded = "JBool False" and payload = "JObj [(''block'', JStr ''00ff'')]"
             and headers = "JObj [(''version'', JStr ''2.0.0'')]" and ready = "JBool True"
             and recognized = "JBool False" and validate = rejecting]
        privileged_peer_call
          [where req = req_postBlock and handler = "''postBlock''" and requestSchemas = schemas0
             and table = "map_of [(''getPeers'', 0), (''postBlock'', 1)]" and master = master_peer
             and exceeded = "JBool False" and payload = "JObj [(''block'', JStr ''00ff'')]"
             and headers = "JObj [(''version'', JStr ''2.0.0'')]" and ready = "JBool True"
             and recognized = "JBool True" and validate = rejecting]
        privileged_peer_call
          [where req = req_postBlock_null and handler = "''postBlock''" and requestSchemas = schemas0
             and table = "map_of [(''getPeers'', 0), (''postBlock'', 1)]" and master = master_stranger
             and exceeded = "JBool False" and payload = "JObj [(''block'', JStr ''00ff'')]"
             and headers = JNull and ready = "JBool True"
             and recognized = "JBool False" and validate = rejecting]
  by (simp add: ask_def andThen_def request_def answers_def master_peer_def master_stranger_def
        req_postBlock_def req_postBlock_null_def schemas0_def)

subsection \<open>Peer handlers without a schema\<close>

lemma invalidPayload_no_schema:
  assumes "event = [prefix, ''peer'', handler]"
    and "requestSchemas ''peer'' = Some table" and "table handler = None"
  shows "invalidPayload requestSchemas validate event payload = Inr False"
  using assms by (simp add: invalidPayload_def element_def propertyKey_def)

lemma hasAdditionalProperties_no_schema:
  assumes "getProp parsed ''event'' = Inr (JStr e)"
    and "split_dot e = [prefix, ''peer'', handler]"
    and "requestSchemas ''peer'' = Some table" and "table handler = None"
  shows "hasAdditionalProperties requestSchemas validate parsed
           = hasAdditionalProperties requestSchemas validate' parsed"
proof -
  have "invalidPayload requestSchemas v (split_dot e) payload = Inr False"
    for v :: "'a validator" and payload
    using assms(2-4) by (simp add: invalidPayload_def element_def propertyKey_def)
  then show ?thesis
    using assms(1)
    by (simp add: hasAdditionalProperties_def andThen_def Let_def
          cong del: if_weak_cong sum.case_cong_weak)
qed


text \<open>
  C10. For a call \<open>p2p.peer.handler\<close> where \<open>handler\<close> is neither \<open>postBlock\<close> nor
  \<open>postTransactions\<close> and the table has no schema for it: the payload block of
  \<open>hasAdditionalProperties\<close> finds nothing invalid for any payload; the envelope check
  and \<open>handleEmit\<close> give the same result under any two validators, also one that
  throws, so the validator is not consulted; and a call that has passed the length,
  rate-limit, shape (payload and headers of type \<open>object\<close>, headers not \<open>null\<close>) and
  readiness tests sends \<open>acceptNewPeer\<close> and calls \<open>next()\<close>.
\<close>

theorem unschematized_peer_call:
  assumes "length (req_event req) \<le> 128"
    and "split_dot (req_event req) = [''p2p'', ''peer'', handler]"
    and "handler \<noteq> ''postBlock''" and "handler \<noteq> ''postTransactions''"
    and "requestSchemas ''peer'' = Some table" and "table handler = None"
    and "ask master (getRateLimitStatus_msg (req_remoteAddress req) (req_event req))
           ''exceededLimitOnEndpoint'' = Inr exceeded"
    and "\<not> truthy exceeded"
    and "typeof (req_data req) = ''object''"
    and "getProp (req_data req) ''data'' = Inr payload" and "typeof payload = ''object''"
    and "getProp (req_data req) ''headers'' = Inr headers" and "typeof headers = ''object''"
    and "headers \<noteq> JNull"
    and "ask master isAppReady_msg ''ready'' = Inr ready" and "truthy ready"
    and "getProp parsed ''event'' = Inr (JStr (req_event req))"
  shows "invalidPayload requestSchemas validate (split_dot (req_event req)) anyPayload = Inr False
       \<and> hasAdditionalProperties requestSchemas validate parsed
           = hasAdditionalProperties requestSchemas validate' parsed
       \<and> handleEmit requestSchemas validate master req
           = handleEmit requestSchemas validate' master req
       \<and> fst (handleEmit requestSchemas validate master req) = Next
       \<and> fst (snd (handleEmit requestSchemas validate master req)) =
              [getRateLimitStatus_msg (req_remoteAddress req) (req_event req), isAppReady_msg,
               acceptNewPeer_msg (req_remoteAddress req) headers]"
proof -
  have one: "invalidPayload requestSchemas validate (split_dot (req_event req)) anyPayload = Inr False"
    using assms(2,5,6) by (rule invalidPayload_no_schema)
  have two: "hasAdditionalProperties requestSchemas validate parsed
           = hasAdditionalProperties requestSchemas validate' parsed"
    using assms(17,2,5,6) by (rule hasAdditionalProperties_no_schema)
  have body: "handleEmit_try requestSchemas v master req payload headers =
               acceptNewPeer req headers [isAppReady_msg]" for v :: "'a validator"
    using assms(2-6,15,16) by (simp add: handleEmit_try_def element_def propertyKey_def Let_def)
  note emit = handleEmit_reaches_try [OF assms(1,7-13)]
  have three: "handleEmit requestSchemas validate master req
           = handleEmit requestSchemas validate' master req"
    by (simp add: emit body)
  from acceptNewPeer_object [OF assms(13,14), of req "[isAppReady_msg]"]
  obtain data' where
    "acceptNewPeer req headers [isAppReady_msg]
       = (Inr Next, [isAppReady_msg] @ [acceptNewPeer_msg (req_remoteAddress req) headers], data')"
    by blast
  then have four: "fst (handleEmit requestSchemas validate master req) = Next
       \<and> fst (snd (handleEmit requestSchemas validate master req)) =
              [getRateLimitStatus_msg (req_remoteAddress req) (req_event req), isAppReady_msg,
               acceptNewPeer_msg (req_remoteAddress req) headers]"
    by (simp add: emit body)
  from one two three four show ?thesis by blast
qed


theorem unschematized_peer_call_witness:
  "fst (handleEmit schemas0 rejecting master_peer req_getStatus) = Next
   \<and> handleEmit schemas0 rejecting master_peer req_getStatus
       = handleEmit schemas0 (\<lambda>schema v. None) master_peer req_getStatus
   \<and> invalidPayload schemas0 rejecting (split_dot (req_event req_getStatus)) (JStr ''unchecked'')
       = Inr False"
proof -
  have hyps:
    "length (req_event req_getStatus) \<le> 128"
    "split_dot (req_event req_getStatus) = [''p2p'', ''peer'', ''getStatus'']"
    "''getStatus'' \<noteq> ''postBlock''" "''getStatus'' \<noteq> ''postTransactions''"
    "schemas0 ''peer'' = Some (map_of [(''getPeers'', 0), (''postBlock'', 1)])"
    "map_of [(''getPeers'', 0::nat), (''postBlock'', 1)] ''getStatus'' = None"
    "ask master_peer (getRateLimitStatus_msg (req_remoteAddress req_getStatus) (req_event req_getStatus))
           ''exceededLimitOnEndpoint'' = Inr (JBool False)"
    "\<not> truthy (JBool False)"
    "typeof (req_data req_getStatus) = ''object''"
    "getProp (req_data req_getStatus) ''data'' = Inr (JObj [(''anything'', JNum 1)])"
    "typeof (JObj [(''anything'', JNum 1)]) = ''object''"
    "getProp (req_data req_getStatus) ''headers'' = Inr (JObj [(''version'', JStr ''2.0.0'')])"
    "typeof (JObj [(''version'', JStr ''2.0.0'')]) = ''object''"
    "JObj [(''version'', JStr ''2.0.0'')] \<noteq> JNull"
    "ask master_peer isAppReady_msg ''ready'' = Inr (JBool True)" "truthy (JBool True)"
    "getProp (JObj [(''event'', JStr ''p2p.peer.getStatus'')]) ''event''
       = Inr (JStr (req_event req_getStatus))"
    by (simp_all add: ask_def andThen_def request_def answers_def master_peer_def
          req_getStatus_def schemas0_def)
  from unschematized_peer_call
         [where req = req_getStatus and handler = "''getStatus''" and requestSchemas = schemas0
            and table = "map_of [(''getPeers'', 0), (''postBlock'', 1)]" and master = master_peer
            and exceeded = "JBool False" and payload = "JObj [(''anything'', JNum 1)]"
            and headers = "JObj [(''version'', JStr ''2.0.0'')]" and ready = "JBool True"
            and validate = rejecting and validate' = "\<lambda>schema v. None"
            and parsed = "JObj [(''event'', JStr ''p2p.peer.getStatus'')]"
            and anyPayload = "JStr ''unchecked''", OF hyps]
  show ?thesis by blast
qed

subsection \<open>How the middlewares can end\<close>

lemma attachRemoteAddress_outcome:
  "fst (attachRemoteAddress req headers sent) = Inr Terminate
   \<or> fst (attachRemoteAddress req headers sent) = Inr Next
   \<or> fst (attachRemoteAddress req headers sent) = Inr (NextError ''App is not ready.'')
   \<or> (\<exists>x. fst (attachRemoteAddress req headers sent) = Inl x)"
  by (simp add: attachRemoteAddress_def split: sum.splits)

lemma acceptNewPeer_outcome:
  "fst (acceptNewPeer req headers sent) = Inr Terminate
   \<or> fst (acceptNewPeer req headers sent) = Inr Next
   \<or> fst (acceptNewPeer req headers sent) = Inr (NextError ''App is not ready.'')
   \<or> (\<exists>x. fst (acceptNewPeer req headers sent) = Inl x)"
  using attachRemoteAddress_outcome by (simp add: acceptNewPeer_def)

lemma handleEmit_try_outcome:
  "fst (handleEmit_try requestSchemas validate master req payload headers) = Inr Terminate
   \<or> fst (handleEmit_try requestSchemas validate master req payload headers) = Inr Next
   \<or> fst (handleEmit_try requestSchemas validate master req payload headers)
        = Inr (NextError ''App is not ready.'')
   \<or> (\<exists>x. fst (handleEmit_try requestSchemas validate master req payload headers) = Inl x)"
  by (simp add: handleEmit_try_def Let_def acceptNewPeer_outcome attachRemoteAddress_outcome
        split: sum.splits option.splits bool.splits)

lemma catch_outcome:
  assumes "fst r = Inr Terminate \<or> fst r = Inr Next \<or> fst r = Inr (NextError m)
           \<or> (\<exists>x. fst r = Inl x)"
  shows "fst (case r of
                (Inl e, sent, data') \<Rightarrow> (Terminate, f e sent, data')
              | (Inr out, sent, data') \<Rightarrow> (out, g sent, data')) = Terminate
         \<or> fst (case r of
                (Inl e, sent, data') \<Rightarrow> (Terminate, f e sent, data')
              | (Inr out, sent, data') \<Rightarrow> (out, g sent, data')) = Next
         \<or> fst (case r of
                (Inl e, sent, data') \<Rightarrow> (Terminate, f e sent, data')
              | (Inr out, sent, data') \<Rightarrow> (out, g sent, data')) = NextError m
         \<or> (\<exists>x. fst (case r of
                (Inl e, sent, data') \<Rightarrow> (Terminate, f e sent, data')
              | (Inr out, sent, data') \<Rightarrow> (out, g sent, data')) = Throw x)"
  using assms by (cases r) (auto split: sum.splits)

lemma handleEmit_after_try:
  "fst (case handleEmit_try requestSchemas validate master req payload headers of
                (Inl e, sent, data') \<Rightarrow> (Terminate, f e sent, data')
              | (Inr out, sent, data') \<Rightarrow> (out, g sent, data')) = Terminate
         \<or> fst (case handleEmit_try requestSchemas validate master req payload headers of
                (Inl e, sent, data') \<Rightarrow> (Terminate, f e sent, data')
              | (Inr out, sent, data') \<Rightarrow> (out, g sent, data')) = Next
         \<or> fst (case handleEmit_try requestSchemas validate master req payload headers of
                (Inl e, sent, data') \<Rightarrow> (Terminate, f e sent, data')
              | (Inr out, sent, data') \<Rightarrow> (out, g sent, data')) = NextError ''App is not ready.''
         \<or> (\<exists>x. fst (case handleEmit_try requestSchemas validate master req payload headers of
                (Inl e, sent, data') \<Rightarrow> (Terminate, f e sent, data')
              | (Inr out, sent, data') \<Rightarrow> (out, g sent, data')) = Throw x)"
  using handleEmit_try_outcome by (rule catch_outcome)

lemma handleEmit_try_no_throw:
  "fst (case handleEmit_try requestSchemas validate master req payload headers of
                (Inl e, sent, data') \<Rightarrow> (Terminate, f e sent, data')
              | (Inr out, sent, data') \<Rightarrow> (out, g sent, data')) \<noteq> Throw x"
  using handleEmit_try_outcome [of requestSchemas validate master req payload headers]
  by (cases "handleEmit_try requestSchemas validate master req payload headers")
     (auto split: sum.splits)


text \<open>
  Every run of \<open>handleEmit\<close> ends in a termination, in \<open>next()\<close>, in the error
  \<open>App is not ready.\<close> passed to \<open>next\<close>, or in an exception that leaves the function;
  every run of \<open>handleHandshake\<close> ends in the destruction of the socket, in \<open>next()\<close>,
  or in such an exception. So among the outcomes the middlewares decide themselves, the
  one that neither closes the socket nor passes the request on is \<open>not ready\<close>.
\<close>

theorem open_outcomes:
  "(fst (handleEmit requestSchemas validate master req)
       \<in> {Terminate, Next, NextError ''App is not ready.''}
     \<or> (\<exists>x. fst (handleEmit requestSchemas validate master req) = Throw x))
   \<and> (fst (handleHandshake cidr master w sc now ip) \<in> {Destroy, Next}
     \<or> (\<exists>x. fst (handleHandshake cidr master w sc now ip) = Throw x))"
proof -
  have emit: "fst (handleEmit requestSchemas validate master req)
       \<in> {Terminate, Next, NextError ''App is not ready.''}
     \<or> (\<exists>x. fst (handleEmit requestSchemas validate master req) = Throw x)"
    by (simp add: handleEmit_def Let_def handleEmit_after_try split: sum.splits)
  have shake: "fst (handleHandshake cidr master w sc now ip) \<in> {Destroy, Next}
     \<or> (\<exists>x. fst (handleHandshake cidr master w sc now ip) = Throw x)"
    by (simp add: handleHandshake_def Let_def split: rpc.splits sum.splits)
  from emit shake show ?thesis by blast
qed


text \<open>
  An exception leaves \<open>handleEmit\<close> only from the code before \<open>try\<close>: it is the
  failure of the call \<open>p2p.internal.getRateLimitStatus\<close> (a rejection, or an answer
  without \<open>data\<close>), or the \<open>TypeError\<close> of reading \<open>req.data.data\<close> when \<open>req.data\<close>
  is \<open>null\<close>. Every failure inside \<open>try\<close>, the calls \<open>isAppReady\<close>,
  \<open>isForgerAuthorized\<close> and \<open>isPeerOrForger\<close> among them, is caught.
\<close>

theorem failures_inside_try_are_caught:
  assumes "fst (handleEmit requestSchemas validate master req) = Throw x"
  shows "ask master (getRateLimitStatus_msg (req_remoteAddress req) (req_event req))
           ''exceededLimitOnEndpoint'' = Inl x
       \<or> (req_data req = JNull \<and> x = TypeError)"
  using assms
  by (cases "req_data req")
     (auto simp: handleEmit_def Let_def handleEmit_try_no_throw split: if_splits sum.splits)

theorem failures_inside_try_are_caught_witness:
  "ask unreachable (getRateLimitStatus_msg (req_remoteAddress req_getStatus) (req_event req_getStatus))
     ''exceededLimitOnEndpoint'' = Inl (RpcError ''timeout'')
   \<or> (req_data req_getStatus = JNull \<and> RpcError ''timeout'' = TypeError)"
proof -
  have "fst (handleEmit schemas0 rejecting unreachable req_getStatus) = Throw (RpcError ''timeout'')"
    by (simp add: handleEmit_def ask_def unreachable_def req_getStatus_def)
  then show ?thesis by (rule failures_inside_try_are_caught)
qed

end
